theory Spec2Isabelle
  imports Complex_Main "HOL-Library.Word" "HOL-Library.Monad_Syntax"
begin

unbundle bit_operations_syntax

section \<open>Data model of SHT3x.h\<close>

type_synonym u8 = "8 word"
type_synonym u16 = "16 word"

text \<open>\<^verbatim>\<open>int8_t\<close>: an 8-bit word read in two's complement with \<^const>\<open>sint\<close>.\<close>

type_synonym s8 = "8 word"

datatype SHT3x_Result =
  SHT3x_OK | SHT3x_FAIL | SHT3x_INVALID_PARAM | SHT3x_CRC_ERROR | SHT3x_NO_DATA

text \<open>
  The three C enumerations \<^verbatim>\<open>SHT3x_Mode_t\<close>, \<^verbatim>\<open>SHT3x_Speed_t\<close> and
  \<^verbatim>\<open>SHT3x_Repeatability_t\<close> are integer types: a variable of such a type can hold a
  value that is none of the enumerators, and the driver's \<^verbatim>\<open>default:\<close> branches exist
  for that case. They are modelled as \<^typ>\<open>int\<close> with the enumerators as constants.
\<close>

definition SHT3x_MODE_SINGLESHOT :: int where [simp]: "SHT3x_MODE_SINGLESHOT = 0"
definition SHT3x_MODE_PERIODIC :: int where [simp]: "SHT3x_MODE_PERIODIC = 1"
definition SHT3x_MODE_ART :: int where [simp]: "SHT3x_MODE_ART = 2"

definition SHT3x_SPEED_05MPS :: int where [simp]: "SHT3x_SPEED_05MPS = 0"
definition SHT3x_SPEED_1MPS :: int where [simp]: "SHT3x_SPEED_1MPS = 1"
definition SHT3x_SPEED_2MPS :: int where [simp]: "SHT3x_SPEED_2MPS = 2"
definition SHT3x_SPEED_4MPS :: int where [simp]: "SHT3x_SPEED_4MPS = 3"
definition SHT3x_SPEED_10MPS :: int where [simp]: "SHT3x_SPEED_10MPS = 4"

definition SHT3x_REPEATABILITY_LOW :: int where [simp]: "SHT3x_REPEATABILITY_LOW = 0"
definition SHT3x_REPEATABILITY_MEDIUM :: int where [simp]: "SHT3x_REPEATABILITY_MEDIUM = 1"
definition SHT3x_REPEATABILITY_HIGH :: int where [simp]: "SHT3x_REPEATABILITY_HIGH = 2"

text \<open>
  The platform capabilities are C function pointers with side effects on the bus and the
  clock. The outside world is a state of an arbitrary type \<open>'w\<close> that every capability
  reads and returns updated. A \<^verbatim>\<open>uint8_t\<close> array handed to a capability by pointer is a
  function from index to byte: the capability returns the array as it left it, whatever
  status it reports. Send only transmits its bytes, so it takes them as a list whose
  length is the \<^verbatim>\<open>Len\<close> argument.
\<close>

type_synonym buffer = "nat \<Rightarrow> u8"

type_synonym 'w PlatformInitDeinit_t = "'w \<Rightarrow> s8 \<times> 'w"
type_synonym 'w PlatformSend_t = "u8 \<Rightarrow> u8 list \<Rightarrow> 'w \<Rightarrow> s8 \<times> 'w"
type_synonym 'w PlatformReceive_t = "u8 \<Rightarrow> buffer \<Rightarrow> nat \<Rightarrow> 'w \<Rightarrow> s8 \<times> buffer \<times> 'w"
type_synonym 'w PlatformCRC_t = "u16 \<Rightarrow> u8 \<Rightarrow> 'w \<Rightarrow> s8 \<times> 'w"
type_synonym 'w PlatformDelay_t = "u8 \<Rightarrow> 'w \<Rightarrow> s8 \<times> 'w"

text \<open>A function pointer may be null: \<^const>\<open>None\<close>.\<close>

record 'w SHT3x_Handler =
  AddressI2C :: u8
  Mode :: int
  Repeatability :: int
  Speed :: int
  PlatformInit :: "'w PlatformInitDeinit_t option"
  PlatformDeInit :: "'w PlatformInitDeinit_t option"
  PlatformSend :: "'w PlatformSend_t option"
  PlatformReceive :: "'w PlatformReceive_t option"
  PlatformDelay :: "'w PlatformDelay_t option"
  PlatformCRC :: "'w PlatformCRC_t option"

text \<open>
  Every call through a capability is logged, with its arguments and the status it
  returned, so that a statement about what was sent, how often receive was tried and when
  a delay was issued is a statement about the log. A receive is logged with the \<^verbatim>\<open>Len\<close>
  bytes that the array holds when the capability returns.
\<close>

datatype event =
  EvInit s8
| EvSend u8 "u8 list" s8
| EvReceive u8 nat s8 "u8 list"
| EvDelay u8
| EvCRC u16 u8 s8

record 'w sys =
  world :: 'w
  trace :: "event list"

section \<open>Calls through the handler's function pointers\<close>

text \<open>
  The result type of every operation is an \<^typ>\<open>'a option\<close>: \<^const>\<open>None\<close> stands for
  undefined behaviour of the C program (a call through a null function pointer, a read
  past the end of an array), \<open>Some\<close> for a normal return.
\<close>

definition call_send :: "'w SHT3x_Handler \<Rightarrow> u8 list \<Rightarrow> 'w sys \<Rightarrow> (s8 \<times> 'w sys) option" where
  "call_send h cmd s =
     (case PlatformSend h of
        None \<Rightarrow> None
      | Some f \<Rightarrow>
          (case f (AddressI2C h) cmd (world s) of
             (r, w') \<Rightarrow>
               Some (r, \<lparr>world = w', trace = trace s @ [EvSend (AddressI2C h) cmd r]\<rparr>)))"

definition call_receive ::
  "'w SHT3x_Handler \<Rightarrow> buffer \<Rightarrow> nat \<Rightarrow> 'w sys \<Rightarrow> (s8 \<times> buffer \<times> 'w sys) option" where
  "call_receive h b len s =
     (case PlatformReceive h of
        None \<Rightarrow> None
      | Some f \<Rightarrow>
          (case f (AddressI2C h) b len (world s) of
             (r, b', w') \<Rightarrow>
               Some (r, b', \<lparr>world = w',
                            trace = trace s @ [EvReceive (AddressI2C h) len r (map b' [0..<len])]\<rparr>)))"

definition call_delay :: "'w SHT3x_Handler \<Rightarrow> u8 \<Rightarrow> 'w sys \<Rightarrow> (s8 \<times> 'w sys) option" where
  "call_delay h ms s =
     (case PlatformDelay h of
        None \<Rightarrow> None
      | Some f \<Rightarrow>
          (case f ms (world s) of
             (r, w') \<Rightarrow> Some (r, \<lparr>world = w', trace = trace s @ [EvDelay ms]\<rparr>)))"

definition call_crc :: "'w SHT3x_Handler \<Rightarrow> u16 \<Rightarrow> u8 \<Rightarrow> 'w sys \<Rightarrow> (s8 \<times> 'w sys) option" where
  "call_crc h d c s =
     (case PlatformCRC h of
        None \<Rightarrow> None
      | Some f \<Rightarrow>
          (case f d c (world s) of
             (r, w') \<Rightarrow> Some (r, \<lparr>world = w', trace = trace s @ [EvCRC d c r]\<rparr>)))"

text \<open>Reading \<^verbatim>\<open>a[i]\<close> from a local array of fixed size.\<close>

definition array_read :: "'a list \<Rightarrow> int \<Rightarrow> 'a option" where
  "array_read a i = (if 0 \<le> i \<and> i < int (length a) then Some (a ! nat i) else None)"

section \<open>Private constants of SHT3x.c\<close>

definition SHT3X_I2C_ADDRESS_A :: u8 where [simp]: "SHT3X_I2C_ADDRESS_A = 0x44"
definition SHT3X_I2C_ADDRESS_B :: u8 where [simp]: "SHT3X_I2C_ADDRESS_B = 0x45"

definition SHT3X_COMMAND_SINGLESHOT_DISABLE_MSB :: u8 where
  [simp]: "SHT3X_COMMAND_SINGLESHOT_DISABLE_MSB = 0x24"
definition SHT3X_COMMAND_SINGLESHOT_DISABLE_HIGH_LSB :: u8 where
  [simp]: "SHT3X_COMMAND_SINGLESHOT_DISABLE_HIGH_LSB = 0x00"
definition SHT3X_COMMAND_SINGLESHOT_DISABLE_MEDIUM_LSB :: u8 where
  [simp]: "SHT3X_COMMAND_SINGLESHOT_DISABLE_MEDIUM_LSB = 0x0B"
definition SHT3X_COMMAND_SINGLESHOT_DISABLE_LOW_LSB :: u8 where
  [simp]: "SHT3X_COMMAND_SINGLESHOT_DISABLE_LOW_LSB = 0x16"

definition SHT3X_COMMAND_PERIODIC_05MPS_MSB :: u8 where
  [simp]: "SHT3X_COMMAND_PERIODIC_05MPS_MSB = 0x20"
definition SHT3X_COMMAND_PERIODIC_05MPS_HIGH_LSB :: u8 where
  [simp]: "SHT3X_COMMAND_PERIODIC_05MPS_HIGH_LSB = 0x32"
definition SHT3X_COMMAND_PERIODIC_05MPS_MEDIUM_LSB :: u8 where
  [simp]: "SHT3X_COMMAND_PERIODIC_05MPS_MEDIUM_LSB = 0x24"
definition SHT3X_COMMAND_PERIODIC_05MPS_LOW_LSB :: u8 where
  [simp]: "SHT3X_COMMAND_PERIODIC_05MPS_LOW_LSB = 0x2F"
definition SHT3X_COMMAND_PERIODIC_1MPS_MSB :: u8 where
  [simp]: "SHT3X_COMMAND_PERIODIC_1MPS_MSB = 0x21"
definition SHT3X_COMMAND_PERIODIC_1MPS_HIGH_LSB :: u8 where
  [simp]: "SHT3X_COMMAND_PERIODIC_1MPS_HIGH_LSB = 0x30"
definition SHT3X_COMMAND_PERIODIC_1MPS_MEDIUM_LSB :: u8 where
  [simp]: "SHT3X_COMMAND_PERIODIC_1MPS_MEDIUM_LSB = 0x26"
definition SHT3X_COMMAND_PERIODIC_1MPS_LOW_LSB :: u8 where
  [simp]: "SHT3X_COMMAND_PERIODIC_1MPS_LOW_LSB = 0x2D"
definition SHT3X_COMMAND_PERIODIC_2MPS_MSB :: u8 where
  [simp]: "SHT3X_COMMAND_PERIODIC_2MPS_MSB = 0x22"
definition SHT3X_COMMAND_PERIODIC_2MPS_HIGH_LSB :: u8 where
  [simp]: "SHT3X_COMMAND_PERIODIC_2MPS_HIGH_LSB = 0x36"
definition SHT3X_COMMAND_PERIODIC_2MPS_MEDIUM_LSB :: u8 where
  [simp]: "SHT3X_COMMAND_PERIODIC_2MPS_MEDIUM_LSB = 0x20"
definition SHT3X_COMMAND_PERIODIC_2MPS_LOW_LSB :: u8 where
  [simp]: "SHT3X_COMMAND_PERIODIC_2MPS_LOW_LSB = 0x2B"
definition SHT3X_COMMAND_PERIODIC_4MPS_MSB :: u8 where
  [simp]: "SHT3X_COMMAND_PERIODIC_4MPS_MSB = 0x23"
definition SHT3X_COMMAND_PERIODIC_4MPS_HIGH_LSB :: u8 where
  [simp]: "SHT3X_COMMAND_PERIODIC_4MPS_HIGH_LSB = 0x34"
definition SHT3X_COMMAND_PERIODIC_4MPS_MEDIUM_LSB :: u8 where
  [simp]: "SHT3X_COMMAND_PERIODIC_4MPS_MEDIUM_LSB = 0x22"
definition SHT3X_COMMAND_PERIODIC_4MPS_LOW_LSB :: u8 where
  [simp]: "SHT3X_COMMAND_PERIODIC_4MPS_LOW_LSB = 0x29"
definition SHT3X_COMMAND_PERIODIC_10MPS_MSB :: u8 where
  [simp]: "SHT3X_COMMAND_PERIODIC_10MPS_MSB = 0x27"
definition SHT3X_COMMAND_PERIODIC_10MPS_HIGH_LSB :: u8 where
  [simp]: "SHT3X_COMMAND_PERIODIC_10MPS_HIGH_LSB = 0x37"
definition SHT3X_COMMAND_PERIODIC_10MPS_MEDIUM_LSB :: u8 where
  [simp]: "SHT3X_COMMAND_PERIODIC_10MPS_MEDIUM_LSB = 0x21"
definition SHT3X_COMMAND_PERIODIC_10MPS_LOW_LSB :: u8 where
  [simp]: "SHT3X_COMMAND_PERIODIC_10MPS_LOW_LSB = 0x2A"

definition SHT3X_COMMAND_ART_MSB :: u8 where [simp]: "SHT3X_COMMAND_ART_MSB = 0x2B"
definition SHT3X_COMMAND_ART_LSB :: u8 where [simp]: "SHT3X_COMMAND_ART_LSB = 0x32"

definition SHT3X_COMMAND_FETCH_DATA_MSB :: u8 where [simp]: "SHT3X_COMMAND_FETCH_DATA_MSB = 0xE0"
definition SHT3X_COMMAND_FETCH_DATA_LSB :: u8 where [simp]: "SHT3X_COMMAND_FETCH_DATA_LSB = 0x00"

definition SHT3X_COMMAND_STOP_PERIODIC_MSB :: u8 where
  [simp]: "SHT3X_COMMAND_STOP_PERIODIC_MSB = 0x30"
definition SHT3X_COMMAND_STOP_PERIODIC_LSB :: u8 where
  [simp]: "SHT3X_COMMAND_STOP_PERIODIC_LSB = 0x93"

definition SHT3X_COMMAND_SOFT_RESET_MSB :: u8 where [simp]: "SHT3X_COMMAND_SOFT_RESET_MSB = 0x30"
definition SHT3X_COMMAND_SOFT_RESET_LSB :: u8 where [simp]: "SHT3X_COMMAND_SOFT_RESET_LSB = 0xA2"

definition SHT3X_COMMAND_STATUS_READ_MSB :: u8 where [simp]: "SHT3X_COMMAND_STATUS_READ_MSB = 0xF3"
definition SHT3X_COMMAND_STATUS_READ_LSB :: u8 where [simp]: "SHT3X_COMMAND_STATUS_READ_LSB = 0x2D"

section \<open>Mode configuration\<close>

definition SHT3x_SetModeSingleShot ::
  "'w SHT3x_Handler \<Rightarrow> int \<Rightarrow> 'w sys \<Rightarrow> (SHT3x_Result \<times> 'w SHT3x_Handler \<times> 'w sys) option" where
  "SHT3x_SetModeSingleShot h rep s =
     do {
       (r, s1) \<leftarrow> call_send h [SHT3X_COMMAND_STOP_PERIODIC_MSB, SHT3X_COMMAND_STOP_PERIODIC_LSB] s;
       if r \<noteq> 0 then Some (SHT3x_FAIL, h, s1)
       else Some (SHT3x_OK, h\<lparr>Mode := SHT3x_MODE_SINGLESHOT, Repeatability := rep\<rparr>, s1)
     }"

text \<open>
  \<^verbatim>\<open>ComandPeriodicMSB[5]\<close> starts as zeros and gets one entry per speed enumerator.
\<close>

definition ComandPeriodicMSB :: "u8 list" where
  "ComandPeriodicMSB =
     (replicate 5 0)
       [nat SHT3x_SPEED_05MPS := SHT3X_COMMAND_PERIODIC_05MPS_MSB,
        nat SHT3x_SPEED_1MPS := SHT3X_COMMAND_PERIODIC_1MPS_MSB,
        nat SHT3x_SPEED_2MPS := SHT3X_COMMAND_PERIODIC_2MPS_MSB,
        nat SHT3x_SPEED_4MPS := SHT3X_COMMAND_PERIODIC_4MPS_MSB,
        nat SHT3x_SPEED_10MPS := SHT3X_COMMAND_PERIODIC_10MPS_MSB]"

text \<open>
  \<^verbatim>\<open>ComandPeriodicLSB[3]\<close> is filled by the \<^verbatim>\<open>switch (Speed)\<close>; its \<^verbatim>\<open>default:\<close>
  branch, which returns \<^verbatim>\<open>SHT3x_INVALID_PARAM\<close>, is \<^const>\<open>None\<close> here.
\<close>

definition ComandPeriodicLSB :: "int \<Rightarrow> u8 list option" where
  "ComandPeriodicLSB speed =
     (if speed = SHT3x_SPEED_05MPS then
        Some ((replicate 3 0)
          [nat SHT3x_REPEATABILITY_LOW := SHT3X_COMMAND_PERIODIC_05MPS_LOW_LSB,
           nat SHT3x_REPEATABILITY_MEDIUM := SHT3X_COMMAND_PERIODIC_05MPS_MEDIUM_LSB,
           nat SHT3x_REPEATABILITY_HIGH := SHT3X_COMMAND_PERIODIC_05MPS_HIGH_LSB])
      else if speed = SHT3x_SPEED_1MPS then
        Some ((replicate 3 0)
          [nat SHT3x_REPEATABILITY_LOW := SHT3X_COMMAND_PERIODIC_1MPS_LOW_LSB,
           nat SHT3x_REPEATABILITY_MEDIUM := SHT3X_COMMAND_PERIODIC_1MPS_MEDIUM_LSB,
           nat SHT3x_REPEATABILITY_HIGH := SHT3X_COMMAND_PERIODIC_1MPS_HIGH_LSB])
      else if speed = SHT3x_SPEED_2MPS then
        Some ((replicate 3 0)
          [nat SHT3x_REPEATABILITY_LOW := SHT3X_COMMAND_PERIODIC_2MPS_LOW_LSB,
           nat SHT3x_REPEATABILITY_MEDIUM := SHT3X_COMMAND_PERIODIC_2MPS_MEDIUM_LSB,
           nat SHT3x_REPEATABILITY_HIGH := SHT3X_COMMAND_PERIODIC_2MPS_HIGH_LSB])
      else if speed = SHT3x_SPEED_4MPS then
        Some ((replicate 3 0)
          [nat SHT3x_REPEATABILITY_LOW := SHT3X_COMMAND_PERIODIC_4MPS_LOW_LSB,
           nat SHT3x_REPEATABILITY_MEDIUM := SHT3X_COMMAND_PERIODIC_4MPS_MEDIUM_LSB,
           nat SHT3x_REPEATABILITY_HIGH := SHT3X_COMMAND_PERIODIC_4MPS_HIGH_LSB])
      else if speed = SHT3x_SPEED_10MPS then
        Some ((replicate 3 0)
          [nat SHT3x_REPEATABILITY_LOW := SHT3X_COMMAND_PERIODIC_10MPS_LOW_LSB,
           nat SHT3x_REPEATABILITY_MEDIUM := SHT3X_COMMAND_PERIODIC_10MPS_MEDIUM_LSB,
           nat SHT3x_REPEATABILITY_HIGH := SHT3X_COMMAND_PERIODIC_10MPS_HIGH_LSB])
      else None)"

definition SHT3x_SetModePeriodic ::
  "'w SHT3x_Handler \<Rightarrow> int \<Rightarrow> int \<Rightarrow> 'w sys \<Rightarrow>
     (SHT3x_Result \<times> 'w SHT3x_Handler \<times> 'w sys) option" where
  "SHT3x_SetModePeriodic h speed rep s =
     (case ComandPeriodicLSB speed of
        None \<Rightarrow> Some (SHT3x_INVALID_PARAM, h, s)
      | Some lsb \<Rightarrow>
          do {
            c0 \<leftarrow> array_read ComandPeriodicMSB speed;
            c1 \<leftarrow> array_read lsb rep;
            (r, s1) \<leftarrow> call_send h [c0, c1] s;
            if r \<noteq> 0 then Some (SHT3x_FAIL, h, s1)
            else Some (SHT3x_OK,
                       h\<lparr>Mode := SHT3x_MODE_PERIODIC, Speed := speed, Repeatability := rep\<rparr>,
                       s1)
          })"

definition SHT3x_SetModeART ::
  "'w SHT3x_Handler \<Rightarrow> 'w sys \<Rightarrow> (SHT3x_Result \<times> 'w SHT3x_Handler \<times> 'w sys) option" where
  "SHT3x_SetModeART h s =
     do {
       (r, s1) \<leftarrow> call_send h [SHT3X_COMMAND_ART_MSB, SHT3X_COMMAND_ART_LSB] s;
       if r \<noteq> 0 then Some (SHT3x_FAIL, h, s1)
       else Some (SHT3x_OK, h\<lparr>Mode := SHT3x_MODE_ART\<rparr>, s1)
     }"

section \<open>Sample acquisition\<close>

text \<open>
  The three derived fields of a sample are C \<^verbatim>\<open>float\<close>s. The value of a finite
  floating-point number is a real number, and each floating-point operation is the exact
  operation followed by a rounding to the format of its type. The two roundings (to
  \<^verbatim>\<open>double\<close> and to \<^verbatim>\<open>float\<close>) are parameters of the model; each operation is rounded
  to its own type (\<^verbatim>\<open>FLT_EVAL_METHOD\<close> 0).
\<close>

record fp_model =
  to_double :: "real \<Rightarrow> real"
  to_float :: "real \<Rightarrow> real"

text \<open>
  IEEE 754 rounding to nearest, ties to even, to a significand of \<open>p\<close> bits: the number
  is scaled so that its significand is an integer of \<open>p\<close> bits, rounded to an integer,
  and scaled back. The exponent range is not modelled: there is no overflow and there are
  no subnormal numbers.
\<close>

definition round_nearest_even :: "real \<Rightarrow> int" where
  "round_nearest_even m =
     (let f = \<lfloor>m\<rfloor> in
      if m - of_int f < 1 / 2 then f
      else if 1 / 2 < m - of_int f then f + 1
      else if even f then f else f + 1)"

definition round_to_precision :: "nat \<Rightarrow> real \<Rightarrow> real" where
  "round_to_precision p x =
     (if x = 0 then 0
      else let e = \<lfloor>log 2 \<bar>x\<bar>\<rfloor> - int p + 1
           in of_int (round_nearest_even (x / 2 powr of_int e)) * 2 powr of_int e)"

text \<open>binary64 has 53 significand bits, binary32 has 24.\<close>

definition fp_ieee :: fp_model where
  "fp_ieee = \<lparr>to_double = round_to_precision 53, to_float = round_to_precision 24\<rparr>"

record SHT3x_Sample =
  TempRaw :: u16
  HumRaw :: u16
  TempCelsius :: real
  TempFahrenheit :: real
  HumidityPercent :: real

text \<open>
  \<^verbatim>\<open>HumRaw / 65535.0\<close> and the product with 100 are \<^verbatim>\<open>double\<close> operations, stored into
  a \<^verbatim>\<open>float\<close>; \<^verbatim>\<open>TempBuff\<close> is a \<^verbatim>\<open>float\<close>, so the products with 175 and 315 and the
  subtractions are \<^verbatim>\<open>float\<close> operations.
\<close>

definition SHT3x_ConvSample :: "fp_model \<Rightarrow> SHT3x_Sample \<Rightarrow> SHT3x_Sample" where
  "SHT3x_ConvSample fp Sample =
     (let s1 = Sample\<lparr>HumidityPercent :=
                 to_float fp (to_double fp
                   (to_double fp (real (unat (HumRaw Sample)) / 65535) * 100))\<rparr>;
          TempBuff = to_float fp (to_double fp (real (unat (TempRaw s1)) / 65535));
          s2 = s1\<lparr>TempCelsius := to_float fp (to_float fp (TempBuff * 175) - 45)\<rparr>
      in s2\<lparr>TempFahrenheit := to_float fp (to_float fp (TempBuff * 315) - 49)\<rparr>)"

text \<open>The default CRC check installed by \<^verbatim>\<open>SHT3x_Init\<close>: it accepts everything.\<close>

definition SHT3x_CheckCRC :: "'w PlatformCRC_t" where
  "SHT3x_CheckCRC Data DataCRC w = (0, w)"

text \<open>
  The polling loop of the single-shot path,
  \<^verbatim>\<open>for (Counter = 0; Counter < 20; Counter++) { if (Receive(..) == 0) break; Delay(1); }\<close>,
  from a given value of \<^verbatim>\<open>Counter\<close>.
\<close>

function receive_loop ::
  "nat \<Rightarrow> 'w SHT3x_Handler \<Rightarrow> buffer \<Rightarrow> 'w sys \<Rightarrow> (buffer \<times> 'w sys) option" where
  "receive_loop Counter h Buffer s =
     (if Counter < 20 then
        do {
          (r, Buffer', s1) \<leftarrow> call_receive h Buffer 6 s;
          if r = 0 then Some (Buffer', s1)
          else do {
            (d, s2) \<leftarrow> call_delay h 1 s1;
            receive_loop (Counter + 1) h Buffer' s2
          }
        }
      else Some (Buffer, s))"
  by pat_completeness auto
termination
  by (relation "measure (\<lambda>(Counter, h, Buffer, s). 20 - Counter)") auto

declare receive_loop.simps [simp del]

text \<open>\<^verbatim>\<open>(hi << 8) | lo\<close> on two bytes, stored into a \<^verbatim>\<open>uint16_t\<close>.\<close>

definition be16 :: "u8 \<Rightarrow> u8 \<Rightarrow> u16" where
  "be16 hi lo = push_bit 8 (ucast hi) OR ucast lo"

text \<open>The part of \<^verbatim>\<open>SHT3x_ReadSample\<close> after the two mode branches: decode, check, convert.\<close>

definition SHT3x_ReadSample_decode ::
  "fp_model \<Rightarrow> 'w SHT3x_Handler \<Rightarrow> buffer \<Rightarrow> SHT3x_Sample \<Rightarrow> 'w sys \<Rightarrow>
     (SHT3x_Result \<times> SHT3x_Sample \<times> 'w sys) option" where
  "SHT3x_ReadSample_decode fp h Buffer Sample s =
     (let Sample1 = Sample\<lparr>TempRaw := be16 (Buffer 0) (Buffer 1)\<rparr>;
          Sample2 = Sample1\<lparr>HumRaw := be16 (Buffer 3) (Buffer 4)\<rparr>
      in do {
        (c1, s1) \<leftarrow> call_crc h (TempRaw Sample2) (Buffer 2) s;
        if c1 \<noteq> 0 then Some (SHT3x_CRC_ERROR, Sample2, s1)
        else do {
          (c2, s2) \<leftarrow> call_crc h (HumRaw Sample2) (Buffer 5) s1;
          if c2 \<noteq> 0 then Some (SHT3x_CRC_ERROR, Sample2, s2)
          else Some (SHT3x_OK, SHT3x_ConvSample fp Sample2, s2)
        }
      })"

definition SHT3x_ReadSample ::
  "fp_model \<Rightarrow> 'w SHT3x_Handler \<Rightarrow> SHT3x_Sample \<Rightarrow> 'w sys \<Rightarrow>
     (SHT3x_Result \<times> SHT3x_Sample \<times> 'w sys) option" where
  "SHT3x_ReadSample fp h Sample s =
     (if Mode h = SHT3x_MODE_SINGLESHOT then
        (if Repeatability h = SHT3x_REPEATABILITY_LOW
            \<or> Repeatability h = SHT3x_REPEATABILITY_MEDIUM
            \<or> Repeatability h = SHT3x_REPEATABILITY_HIGH then
           do {
             (r, s1) \<leftarrow> call_send h
               [SHT3X_COMMAND_SINGLESHOT_DISABLE_MSB,
                if Repeatability h = SHT3x_REPEATABILITY_LOW
                  then SHT3X_COMMAND_SINGLESHOT_DISABLE_LOW_LSB
                else if Repeatability h = SHT3x_REPEATABILITY_MEDIUM
                  then SHT3X_COMMAND_SINGLESHOT_DISABLE_MEDIUM_LSB
                else SHT3X_COMMAND_SINGLESHOT_DISABLE_HIGH_LSB] s;
             if r \<noteq> 0 then Some (SHT3x_FAIL, Sample, s1)
             else do {
               (Buffer, s2) \<leftarrow> receive_loop 0 h (\<lambda>i. 0) s1;
               if Buffer 2 = 0 \<and> Buffer 5 = 0 then Some (SHT3x_FAIL, Sample, s2)
               else SHT3x_ReadSample_decode fp h Buffer Sample s2
             }
           }
         else Some (SHT3x_INVALID_PARAM, Sample, s))
      else
        do {
          (r, s1) \<leftarrow> call_send h [SHT3X_COMMAND_FETCH_DATA_MSB, SHT3X_COMMAND_FETCH_DATA_LSB] s;
          if r \<noteq> 0 then Some (SHT3x_FAIL, Sample, s1)
          else do {
            (PlatformResult, Buffer, s2) \<leftarrow> call_receive h (\<lambda>i. 0) 6 s1;
            if sint PlatformResult = - 3 then Some (SHT3x_NO_DATA, Sample, s2)
            else if PlatformResult \<noteq> 0 then Some (SHT3x_FAIL, Sample, s2)
            else SHT3x_ReadSample_decode fp h Buffer Sample s2
          }
        })"

section \<open>Control and status\<close>

text \<open>
  \<^verbatim>\<open>SHT3X_I2C_ADDRESS_A << 1\<close> is computed on \<^verbatim>\<open>int\<close>: 0x88, and 0x8A for address B.
\<close>

definition SHT3x_SetAddressI2C ::
  "'w SHT3x_Handler \<Rightarrow> u8 \<Rightarrow> SHT3x_Result \<times> 'w SHT3x_Handler" where
  "SHT3x_SetAddressI2C h Address =
     (if Address = 0 \<or> Address = SHT3X_I2C_ADDRESS_A
         \<or> uint Address = push_bit 1 (uint SHT3X_I2C_ADDRESS_A)
      then (SHT3x_OK, h\<lparr>AddressI2C := SHT3X_I2C_ADDRESS_A\<rparr>)
      else if Address = 1 \<or> Address = SHT3X_I2C_ADDRESS_B
         \<or> uint Address = push_bit 1 (uint SHT3X_I2C_ADDRESS_B)
      then (SHT3x_OK, h\<lparr>AddressI2C := SHT3X_I2C_ADDRESS_B\<rparr>)
      else (SHT3x_OK, h))"

text \<open>
  \<^verbatim>\<open>SHT3x_Init\<close> calls \<^verbatim>\<open>SHT3x_SetModeSingleShot\<close> as a statement: the result code of
  that call is dropped, the handler and the world it leaves are kept.
\<close>

definition SHT3x_Init ::
  "'w SHT3x_Handler \<Rightarrow> u8 \<Rightarrow> 'w sys \<Rightarrow> (SHT3x_Result \<times> 'w SHT3x_Handler \<times> 'w sys) option" where
  "SHT3x_Init h Address s =
     (let h1 = snd (SHT3x_SetAddressI2C h Address) in
      if PlatformSend h1 = None \<or> PlatformReceive h1 = None \<or> PlatformDelay h1 = None
      then Some (SHT3x_INVALID_PARAM, h1, s)
      else
        let h2 = (if PlatformCRC h1 = None then h1\<lparr>PlatformCRC := Some SHT3x_CheckCRC\<rparr> else h1);
            (i, s1) = (case PlatformInit h2 of
                         None \<Rightarrow> (0, s)
                       | Some f \<Rightarrow>
                           (case f (world s) of
                              (r, w') \<Rightarrow> (r, \<lparr>world = w', trace = trace s @ [EvInit r]\<rparr>)))
        in
        if i \<noteq> 0 then Some (SHT3x_FAIL, h2, s1)
        else do {
          (m, h3, s2) \<leftarrow> SHT3x_SetModeSingleShot h2 SHT3x_REPEATABILITY_LOW s1;
          (r, s3) \<leftarrow> call_send h3 [SHT3X_COMMAND_SOFT_RESET_MSB, SHT3X_COMMAND_SOFT_RESET_LSB] s2;
          if r \<noteq> 0 then Some (SHT3x_FAIL, h3, s3)
          else do {
            (d, s4) \<leftarrow> call_delay h3 2 s3;
            Some (SHT3x_OK, h3, s4)
          }
        })"

text \<open>
  \<^verbatim>\<open>uint8_t Buffer[3]\<close> of \<^verbatim>\<open>SHT3x_ReadStatus\<close> is not initialised: what it holds before
  the receive is the parameter \<open>Buffer\<close>.
\<close>

definition SHT3x_ReadStatus ::
  "'w SHT3x_Handler \<Rightarrow> buffer \<Rightarrow> u16 \<Rightarrow> 'w sys \<Rightarrow> (SHT3x_Result \<times> u16 \<times> 'w sys) option" where
  "SHT3x_ReadStatus h Buffer Status s =
     do {
       (r, s1) \<leftarrow> call_send h [SHT3X_COMMAND_STATUS_READ_MSB, SHT3X_COMMAND_STATUS_READ_LSB] s;
       if r \<noteq> 0 then Some (SHT3x_FAIL, Status, s1)
       else do {
         (r2, Buffer', s2) \<leftarrow> call_receive h Buffer 3 s1;
         if r2 \<noteq> 0 then Some (SHT3x_FAIL, Status, s2)
         else do {
           (c, s3) \<leftarrow> call_crc h (be16 (Buffer' 0) (Buffer' 1)) (Buffer' 2) s2;
           if c \<noteq> 0 then Some (SHT3x_CRC_ERROR, be16 (Buffer' 0) (Buffer' 1), s3)
           else Some (SHT3x_OK, be16 (Buffer' 0) (Buffer' 1), s3)
         }
       }
     }"

section \<open>Simulated adapters\<close>

text \<open>
  Concrete capabilities for running the driver. Their world is a counter of the send
  calls made so far.
\<close>

definition send_ok :: "nat PlatformSend_t" where
  "send_ok Address Data w = (0, w + 1)"

definition send_fail :: "nat PlatformSend_t" where
  "send_fail Address Data w = (- 1, w + 1)"

text \<open>A bus that rejects the first transfer and accepts every later one.\<close>

definition send_fail_first :: "nat PlatformSend_t" where
  "send_fail_first Address Data w = (if w = 0 then - 1 else 0, w + 1)"

text \<open>Writing the first \<open>Len\<close> bytes of a response into the array.\<close>

definition write_bytes :: "u8 list \<Rightarrow> buffer \<Rightarrow> nat \<Rightarrow> buffer" where
  "write_bytes bytes Data Len = (\<lambda>i. if i < Len \<and> i < length bytes then bytes ! i else Data i)"

definition receive_data :: "u8 list \<Rightarrow> nat PlatformReceive_t" where
  "receive_data bytes Address Data Len w = (0, write_bytes bytes Data Len, w)"

definition receive_fail :: "nat PlatformReceive_t" where
  "receive_fail Address Data Len w = (- 1, Data, w)"


text \<open>A transfer that breaks off after three bytes have been stored, and reports failure.\<close>

definition receive_fail_partial :: "nat PlatformReceive_t" where
  "receive_fail_partial Address Data Len w = (- 1, write_bytes [0x66, 0x2E, 0xFF] Data Len, w)"

definition delay_ok :: "nat PlatformDelay_t" where
  "delay_ok ms w = (0, w)"

definition crc_reject :: "nat PlatformCRC_t" where
  "crc_reject Data DataCRC w = (- 1, w)"

definition sim_handler ::
  "int \<Rightarrow> int \<Rightarrow> nat PlatformSend_t \<Rightarrow> nat PlatformReceive_t \<Rightarrow> nat PlatformCRC_t \<Rightarrow>
     nat SHT3x_Handler" where
  "sim_handler m rep send recv crc =
     \<lparr>AddressI2C = 0x44, Mode = m, Repeatability = rep, Speed = SHT3x_SPEED_05MPS,
      PlatformInit = None, PlatformDeInit = None,
      PlatformSend = Some send, PlatformReceive = Some recv,
      PlatformDelay = Some delay_ok, PlatformCRC = Some crc\<rparr>"

definition sys0 :: "nat sys" where
  "sys0 = \<lparr>world = 0, trace = []\<rparr>"

definition sample0 :: SHT3x_Sample where
  "sample0 = \<lparr>TempRaw = 0, HumRaw = 0, TempCelsius = 0, TempFahrenheit = 0, HumidityPercent = 0\<rparr>"

section \<open>The sensor's checksum\<close>

text \<open>
  The sensor appends to each 16-bit word a CRC-8 with polynomial 0x31 and initial value
  0xFF, computed over the two bytes, most significant bit first. The driver does not
  compute it (its own check accepts everything); it is defined here to tell which
  words carry the checksum 0x00, and to give the simulated adapters a check that
  accepts exactly the words the sensor would send.
\<close>

definition crc8_shift :: "u8 \<Rightarrow> u8" where
  "crc8_shift c = (if bit c 7 then push_bit 1 c XOR 0x31 else push_bit 1 c)"

definition crc8_byte :: "u8 \<Rightarrow> u8 \<Rightarrow> u8" where
  "crc8_byte c b = (crc8_shift ^^ 8) (c XOR b)"

definition sensor_crc8 :: "u8 list \<Rightarrow> u8" where
  "sensor_crc8 bytes = foldl crc8_byte 0xFF bytes"

text \<open>
  A CRC capability for the simulated adapters: 0 when \<open>DataCRC\<close> is the checksum of the
  two bytes of \<open>Data\<close>, high byte first, and -1 otherwise.
\<close>

definition crc_sensor :: "nat PlatformCRC_t" where
  "crc_sensor Data DataCRC w =
     (if sensor_crc8 [ucast (drop_bit 8 Data), ucast Data] = DataCRC then 0 else - 1, w)"

section \<open>The periodic command set\<close>

text \<open>
  The fifteen periodic-acquisition commands of the sensor's command set, by speed and
  repeatability, each as the two bytes on the wire, most significant byte first. This
  table is written from the command set, not from the driver.
\<close>

definition periodic_command_table :: "((int \<times> int) \<times> u8 list) list" where
  "periodic_command_table =
     [((SHT3x_SPEED_05MPS, SHT3x_REPEATABILITY_LOW), [0x20, 0x2F]),
      ((SHT3x_SPEED_05MPS, SHT3x_REPEATABILITY_MEDIUM), [0x20, 0x24]),
      ((SHT3x_SPEED_05MPS, SHT3x_REPEATABILITY_HIGH), [0x20, 0x32]),
      ((SHT3x_SPEED_1MPS, SHT3x_REPEATABILITY_LOW), [0x21, 0x2D]),
      ((SHT3x_SPEED_1MPS, SHT3x_REPEATABILITY_MEDIUM), [0x21, 0x26]),
      ((SHT3x_SPEED_1MPS, SHT3x_REPEATABILITY_HIGH), [0x21, 0x30]),
      ((SHT3x_SPEED_2MPS, SHT3x_REPEATABILITY_LOW), [0x22, 0x2B]),
      ((SHT3x_SPEED_2MPS, SHT3x_REPEATABILITY_MEDIUM), [0x22, 0x20]),
      ((SHT3x_SPEED_2MPS, SHT3x_REPEATABILITY_HIGH), [0x22, 0x36]),
      ((SHT3x_SPEED_4MPS, SHT3x_REPEATABILITY_LOW), [0x23, 0x29]),
      ((SHT3x_SPEED_4MPS, SHT3x_REPEATABILITY_MEDIUM), [0x23, 0x22]),
      ((SHT3x_SPEED_4MPS, SHT3x_REPEATABILITY_HIGH), [0x23, 0x34]),
      ((SHT3x_SPEED_10MPS, SHT3x_REPEATABILITY_LOW), [0x27, 0x2A]),
      ((SHT3x_SPEED_10MPS, SHT3x_REPEATABILITY_MEDIUM), [0x27, 0x21]),
      ((SHT3x_SPEED_10MPS, SHT3x_REPEATABILITY_HIGH), [0x27, 0x37])]"

section \<open>Reading the log\<close>

text \<open>
  The single-shot measurement commands without clock stretching, from the command set:
  0x2416 for low, 0x240B for medium and 0x2400 for high repeatability.
\<close>

definition singleshot_command :: "int \<Rightarrow> u8 list" where
  "singleshot_command rep =
     [0x24, if rep = SHT3x_REPEATABILITY_LOW then 0x16
            else if rep = SHT3x_REPEATABILITY_MEDIUM then 0x0B else 0x00]"

text \<open>
  The log of a run of failed polls: each entry of \<open>rs\<close> is the status and the six bytes
  of one receive attempt, and each attempt is followed by a delay of 1 ms.
\<close>

definition poll_events :: "u8 \<Rightarrow> (s8 \<times> u8 list) list \<Rightarrow> event list" where
  "poll_events a rs = concat (map (\<lambda>(r, bytes). [EvReceive a 6 r bytes, EvDelay 1]) rs)"

fun is_crc :: "event \<Rightarrow> bool" where
  "is_crc (EvCRC d c r) = True"
| "is_crc e = False"

text \<open>
  A sample whose two raw fields are decoded from six received bytes
  \<^verbatim>\<open>[T_hi, T_lo, T_crc, H_hi, H_lo, H_crc]\<close> and whose other fields are as before.
\<close>

definition raw_decoded :: "u8 list \<Rightarrow> SHT3x_Sample \<Rightarrow> SHT3x_Sample" where
  "raw_decoded bytes Sample =
     Sample\<lparr>TempRaw := be16 (bytes ! 0) (bytes ! 1), HumRaw := be16 (bytes ! 3) (bytes ! 4)\<rparr>"

section \<open>Properties of the floating-point formats\<close>

text \<open>
  Two facts about binary32 and binary64 with rounding to nearest are all that the
  conversion needs. Every integer of magnitude below \<open>2\<^sup>2\<^sup>4\<close> is a value of both
  formats, and rounding leaves a value of the format as it is.
\<close>

definition fp_exact_on_integers :: "fp_model \<Rightarrow> bool" where
  "fp_exact_on_integers fp \<longleftrightarrow>
     (\<forall>n::int. \<bar>n\<bar> < 2 ^ 24 \<longrightarrow>
        to_float fp (of_int n) = of_int n \<and> to_double fp (of_int n) = of_int n)"

text \<open>
  Rounding to nearest moves a number \<open>x\<close> in the normal range of the format by at most
  \<open>\<bar>x\<bar> / 2\<^sup>2\<^sup>4\<close> (binary32) or \<open>\<bar>x\<bar> / 2\<^sup>5\<^sup>3\<close> (binary64), and a number below the
  normal range by less than that much of 1.
\<close>

definition fp_accurate :: "fp_model \<Rightarrow> bool" where
  "fp_accurate fp \<longleftrightarrow>
     (\<forall>x. \<bar>x\<bar> \<le> 1024 \<longrightarrow>
        \<bar>to_float fp x - x\<bar> \<le> (\<bar>x\<bar> + 1) / 2 ^ 24
        \<and> \<bar>to_double fp x - x\<bar> \<le> (\<bar>x\<bar> + 1) / 2 ^ 53)"

section \<open>Calls through bound capabilities\<close>

lemma call_send_Some:
  "PlatformSend h = Some send \<Longrightarrow> send (AddressI2C h) cmd (world s) = (r, w') \<Longrightarrow>
   call_send h cmd s = Some (r, \<lparr>world = w', trace = trace s @ [EvSend (AddressI2C h) cmd r]\<rparr>)"
  by (simp add: call_send_def)

section \<open>Periodic mode: the command sent\<close>

lemma periodic_command_lookup:
  "((speed, rep), cmd) \<in> set periodic_command_table \<Longrightarrow>
   \<exists>lsb c0 c1. ComandPeriodicLSB speed = Some lsb \<and> array_read ComandPeriodicMSB speed = Some c0
     \<and> array_read lsb rep = Some c1 \<and> cmd = [c0, c1]"
  unfolding periodic_command_table_def
  by (auto simp add: ComandPeriodicLSB_def ComandPeriodicMSB_def array_read_def numeral_eq_Suc)

lemma periodic_command_table_keys:
  "fst ` set periodic_command_table = {0..4} \<times> {0..2}"
proof -
  have "{0..4::int} = {0,1,2,3,4}" "{0..2::int} = {0,1,2}" by auto
  then show ?thesis unfolding periodic_command_table_def by auto
qed

lemma periodic_command_table_distinct:
  "distinct (map snd periodic_command_table)" "length periodic_command_table = 15"
  unfolding periodic_command_table_def by simp_all

text \<open>
  C1. For each of the five speeds and three repeatabilities, \<^verbatim>\<open>SHT3x_SetModePeriodic\<close>
  sends exactly the two bytes that the command set lists for the pair, most significant
  byte first (speed 4 MPS with high repeatability: 0x23 0x34). When the send returns 0
  the call returns \<^verbatim>\<open>SHT3x_OK\<close> and the handler holds mode Periodic and both arguments;
  otherwise it returns \<^verbatim>\<open>SHT3x_FAIL\<close> and the handler is as before. The table has one
  entry for every pair, fifteen in all, and no command occurs twice.
\<close>

theorem SetModePeriodic_command_table:
  assumes "PlatformSend h = Some send"
    and "((speed, rep), cmd) \<in> set periodic_command_table"
    and "send (AddressI2C h) cmd (world s) = (r, w')"
  shows "SHT3x_SetModePeriodic h speed rep s =
           Some (if r = 0 then SHT3x_OK else SHT3x_FAIL,
                 if r = 0
                 then h\<lparr>Mode := SHT3x_MODE_PERIODIC, Speed := speed, Repeatability := rep\<rparr>
                 else h,
                 \<lparr>world = w', trace = trace s @ [EvSend (AddressI2C h) cmd r]\<rparr>)
         \<and> fst ` set periodic_command_table = {0..4} \<times> {0..2}
         \<and> distinct (map snd periodic_command_table)
         \<and> length periodic_command_table = 15"
proof -
  from periodic_command_lookup [OF assms(2)] obtain lsb c0 c1 where
    l: "ComandPeriodicLSB speed = Some lsb" "array_read ComandPeriodicMSB speed = Some c0"
       "array_read lsb rep = Some c1" "cmd = [c0, c1]" by blast
  have "SHT3x_SetModePeriodic h speed rep s =
           Some (if r = 0 then SHT3x_OK else SHT3x_FAIL,
                 if r = 0
                 then h\<lparr>Mode := SHT3x_MODE_PERIODIC, Speed := speed, Repeatability := rep\<rparr>
                 else h,
                 \<lparr>world = w', trace = trace s @ [EvSend (AddressI2C h) cmd r]\<rparr>)"
    using call_send_Some [OF assms(1) assms(3)] l
    by (simp add: SHT3x_SetModePeriodic_def)
  then show ?thesis
    using periodic_command_table_keys periodic_command_table_distinct by simp
qed

theorem SetModePeriodic_command_table_witness:
  "SHT3x_SetModePeriodic (sim_handler 0 0 send_ok receive_fail SHT3x_CheckCRC) 3 2 sys0 =
     Some (SHT3x_OK,
           (sim_handler 0 0 send_ok receive_fail SHT3x_CheckCRC)
             \<lparr>Mode := SHT3x_MODE_PERIODIC, Speed := 3, Repeatability := 2\<rparr>,
           \<lparr>world = 1, trace = [EvSend 0x44 [0x23, 0x34] 0]\<rparr>)"
  using SetModePeriodic_command_table
    [of "sim_handler 0 0 send_ok receive_fail SHT3x_CheckCRC" send_ok 3 2 "[0x23, 0x34]" sys0 0 1]
  by (simp add: sim_handler_def send_ok_def sys0_def periodic_command_table_def)

section \<open>Mode configuration: what a failed send leaves behind\<close>

lemma call_send_cases:
  assumes "call_send h cmd s = Some (r, s1)"
  shows "trace s1 = trace s @ [EvSend (AddressI2C h) cmd r]"
  using assms by (auto simp add: call_send_def split: option.splits prod.splits)

lemma SetModeSingleShot_cases:
  assumes "SHT3x_SetModeSingleShot h rep s = Some (res, h', s')"
  shows "\<exists>r. trace s' = trace s @ [EvSend (AddressI2C h) [0x30, 0x93] r]
           \<and> (if r \<noteq> 0 then res = SHT3x_FAIL \<and> h' = h
               else res = SHT3x_OK \<and> h' = h\<lparr>Mode := SHT3x_MODE_SINGLESHOT, Repeatability := rep\<rparr>)"
proof -
  from assms obtain r s1 where
    snd: "call_send h [0x30, 0x93] s = Some (r, s1)"
    and res: "(if r \<noteq> 0 then Some (SHT3x_FAIL, h, s1)
               else Some (SHT3x_OK, h\<lparr>Mode := SHT3x_MODE_SINGLESHOT, Repeatability := rep\<rparr>, s1))
              = Some (res, h', s')"
    by (auto simp add: SHT3x_SetModeSingleShot_def split: Option.bind_splits)
  from call_send_cases [OF snd] res
  have "trace s' = trace s @ [EvSend (AddressI2C h) [0x30, 0x93] r]
           \<and> (if r \<noteq> 0 then res = SHT3x_FAIL \<and> h' = h
               else res = SHT3x_OK \<and> h' = h\<lparr>Mode := SHT3x_MODE_SINGLESHOT, Repeatability := rep\<rparr>)"
    by (auto split: if_splits)
  then show ?thesis by blast
qed

lemma SetModeART_cases:
  assumes "SHT3x_SetModeART h s = Some (res, h', s')"
  shows "\<exists>r. trace s' = trace s @ [EvSend (AddressI2C h) [0x2B, 0x32] r]
           \<and> (if r \<noteq> 0 then res = SHT3x_FAIL \<and> h' = h
               else res = SHT3x_OK \<and> h' = h\<lparr>Mode := SHT3x_MODE_ART\<rparr>)"
proof -
  from assms obtain r s1 where
    snd: "call_send h [0x2B, 0x32] s = Some (r, s1)"
    and res: "(if r \<noteq> 0 then Some (SHT3x_FAIL, h, s1)
               else Some (SHT3x_OK, h\<lparr>Mode := SHT3x_MODE_ART\<rparr>, s1))
              = Some (res, h', s')"
    by (auto simp add: SHT3x_SetModeART_def split: Option.bind_splits)
  from call_send_cases [OF snd] res
  have "trace s' = trace s @ [EvSend (AddressI2C h) [0x2B, 0x32] r]
           \<and> (if r \<noteq> 0 then res = SHT3x_FAIL \<and> h' = h
               else res = SHT3x_OK \<and> h' = h\<lparr>Mode := SHT3x_MODE_ART\<rparr>)"
    by (auto split: if_splits)
  then show ?thesis by blast
qed

lemma SetModePeriodic_cases:
  assumes "SHT3x_SetModePeriodic h speed rep s = Some (res, h', s')"
  shows "(res = SHT3x_INVALID_PARAM \<and> h' = h \<and> s' = s) \<or>
         (\<exists>cmd r. trace s' = trace s @ [EvSend (AddressI2C h) cmd r]
           \<and> (if r \<noteq> 0 then res = SHT3x_FAIL \<and> h' = h
               else res = SHT3x_OK
                 \<and> h' = h\<lparr>Mode := SHT3x_MODE_PERIODIC, Speed := speed, Repeatability := rep\<rparr>))"
proof (cases "ComandPeriodicLSB speed")
  case None
  with assms show ?thesis by (simp add: SHT3x_SetModePeriodic_def)
next
  case (Some lsb)
  with assms obtain c0 c1 r s1 where
    snd: "call_send h [c0, c1] s = Some (r, s1)"
    and res: "(if r \<noteq> 0 then Some (SHT3x_FAIL, h, s1)
               else Some (SHT3x_OK,
                      h\<lparr>Mode := SHT3x_MODE_PERIODIC, Speed := speed, Repeatability := rep\<rparr>, s1))
              = Some (res, h', s')"
    by (auto simp add: SHT3x_SetModePeriodic_def split: Option.bind_splits)
  from call_send_cases [OF snd] res
  have "trace s' = trace s @ [EvSend (AddressI2C h) [c0, c1] r]
           \<and> (if r \<noteq> 0 then res = SHT3x_FAIL \<and> h' = h
               else res = SHT3x_OK
                 \<and> h' = h\<lparr>Mode := SHT3x_MODE_PERIODIC, Speed := speed, Repeatability := rep\<rparr>)"
    by (auto split: if_splits)
  then show ?thesis by blast
qed

text \<open>
  C7. Whenever \<^verbatim>\<open>SHT3x_SetModeSingleShot\<close>, \<^verbatim>\<open>SHT3x_SetModePeriodic\<close> or
  \<^verbatim>\<open>SHT3x_SetModeART\<close> returns, it has made one send (none when
  \<^verbatim>\<open>SHT3x_SetModePeriodic\<close> rejects its speed). If that send returned a nonzero status
  the result is \<^verbatim>\<open>SHT3x_FAIL\<close> and the handler, with its mode, repeatability and speed,
  is exactly the one passed in; the fields are written only when the send returned 0, and
  then the result is \<^verbatim>\<open>SHT3x_OK\<close>.
\<close>

theorem SetMode_failed_send_keeps_handler:
  "(SHT3x_SetModeSingleShot h rep s = Some (res, h', s') \<longrightarrow>
      (\<exists>r. trace s' = trace s @ [EvSend (AddressI2C h) [0x30, 0x93] r]
           \<and> (if r \<noteq> 0 then res = SHT3x_FAIL \<and> h' = h
               else res = SHT3x_OK
                 \<and> h' = h\<lparr>Mode := SHT3x_MODE_SINGLESHOT, Repeatability := rep\<rparr>)))
   \<and> (SHT3x_SetModePeriodic h speed rep s = Some (res, h', s') \<longrightarrow>
      (res = SHT3x_INVALID_PARAM \<and> h' = h \<and> s' = s) \<or>
      (\<exists>cmd r. trace s' = trace s @ [EvSend (AddressI2C h) cmd r]
           \<and> (if r \<noteq> 0 then res = SHT3x_FAIL \<and> h' = h
               else res = SHT3x_OK
                 \<and> h' = h\<lparr>Mode := SHT3x_MODE_PERIODIC, Speed := speed, Repeatability := rep\<rparr>)))
   \<and> (SHT3x_SetModeART h s = Some (res, h', s') \<longrightarrow>
      (\<exists>r. trace s' = trace s @ [EvSend (AddressI2C h) [0x2B, 0x32] r]
           \<and> (if r \<noteq> 0 then res = SHT3x_FAIL \<and> h' = h
               else res = SHT3x_OK \<and> h' = h\<lparr>Mode := SHT3x_MODE_ART\<rparr>)))"
  using SetModeSingleShot_cases [of h rep s res h' s']
    SetModePeriodic_cases [of h speed rep s res h' s']
    SetModeART_cases [of h s res h' s']
  by blast

theorem SetMode_failed_send_keeps_handler_witness:
  "SHT3x_SetModeSingleShot
       (sim_handler SHT3x_MODE_PERIODIC SHT3x_REPEATABILITY_HIGH send_fail receive_fail SHT3x_CheckCRC)
       SHT3x_REPEATABILITY_LOW sys0 =
     Some (SHT3x_FAIL,
           sim_handler SHT3x_MODE_PERIODIC SHT3x_REPEATABILITY_HIGH send_fail receive_fail
             SHT3x_CheckCRC,
           \<lparr>world = 1, trace = [EvSend 0x44 [0x30, 0x93] (- 1)]\<rparr>)
   \<and> SHT3x_SetModePeriodic
       (sim_handler SHT3x_MODE_SINGLESHOT SHT3x_REPEATABILITY_HIGH send_fail receive_fail
          SHT3x_CheckCRC)
       SHT3x_SPEED_4MPS SHT3x_REPEATABILITY_LOW sys0 =
     Some (SHT3x_FAIL,
           sim_handler SHT3x_MODE_SINGLESHOT SHT3x_REPEATABILITY_HIGH send_fail receive_fail
             SHT3x_CheckCRC,
           \<lparr>world = 1, trace = [EvSend 0x44 [0x23, 0x29] (- 1)]\<rparr>)
   \<and> SHT3x_SetModeART
       (sim_handler SHT3x_MODE_SINGLESHOT SHT3x_REPEATABILITY_HIGH send_fail receive_fail
          SHT3x_CheckCRC) sys0 =
     Some (SHT3x_FAIL,
           sim_handler SHT3x_MODE_SINGLESHOT SHT3x_REPEATABILITY_HIGH send_fail receive_fail
             SHT3x_CheckCRC,
           \<lparr>world = 1, trace = [EvSend 0x44 [0x2B, 0x32] (- 1)]\<rparr>)"
  using SetMode_failed_send_keeps_handler
    [of "sim_handler SHT3x_MODE_PERIODIC SHT3x_REPEATABILITY_HIGH send_fail receive_fail
           SHT3x_CheckCRC"
        SHT3x_REPEATABILITY_LOW sys0 SHT3x_FAIL
        "sim_handler SHT3x_MODE_PERIODIC SHT3x_REPEATABILITY_HIGH send_fail receive_fail
           SHT3x_CheckCRC"
        "\<lparr>world = 1, trace = [EvSend 0x44 [0x30, 0x93] (- 1)]\<rparr>" SHT3x_SPEED_4MPS]
  by (simp add: SHT3x_SetModeSingleShot_def SHT3x_SetModePeriodic_def SHT3x_SetModeART_def
        call_send_def sim_handler_def send_fail_def sys0_def ComandPeriodicLSB_def
        ComandPeriodicMSB_def array_read_def)

section \<open>Parameters outside the enumerations\<close>

text \<open>
  C10. \<^verbatim>\<open>SHT3x_ReadSample\<close> on a handler in single-shot mode whose stored repeatability
  is none of Low, Medium, High returns \<^verbatim>\<open>SHT3x_INVALID_PARAM\<close>; the world and the log
  are untouched, so no send, receive or delay was invoked, and the sample is the one
  passed in.
\<close>

theorem ReadSample_invalid_repeatability:
  assumes "Mode h = SHT3x_MODE_SINGLESHOT"
    and "Repeatability h \<notin>
           {SHT3x_REPEATABILITY_LOW, SHT3x_REPEATABILITY_MEDIUM, SHT3x_REPEATABILITY_HIGH}"
  shows "SHT3x_ReadSample fp h Sample s = Some (SHT3x_INVALID_PARAM, Sample, s)"
  using assms by (simp add: SHT3x_ReadSample_def)

theorem ReadSample_invalid_repeatability_witness:
  "SHT3x_ReadSample fp_ieee
     (sim_handler SHT3x_MODE_SINGLESHOT 3 send_ok
        (receive_data [0x66, 0x2E, 0xFF, 0x7D, 0x13, 0xFF]) SHT3x_CheckCRC)
     sample0 sys0 = Some (SHT3x_INVALID_PARAM, sample0, sys0)"
  using ReadSample_invalid_repeatability
    [of "sim_handler SHT3x_MODE_SINGLESHOT 3 send_ok
           (receive_data [0x66, 0x2E, 0xFF, 0x7D, 0x13, 0xFF]) SHT3x_CheckCRC"
        fp_ieee sample0 sys0]
  by (simp add: sim_handler_def)

text \<open>The speed argument of \<^verbatim>\<open>SHT3x_SetModePeriodic\<close> is checked by its \<^verbatim>\<open>switch\<close>.\<close>

lemma SetModePeriodic_invalid_speed:
  assumes "speed \<notin> {0..4}"
  shows "SHT3x_SetModePeriodic h speed rep s = Some (SHT3x_INVALID_PARAM, h, s)"
proof -
  from assms have "ComandPeriodicLSB speed = None"
    by (auto simp add: ComandPeriodicLSB_def)
  then show ?thesis by (simp add: SHT3x_SetModePeriodic_def)
qed

text \<open>
  C6. The repeatability argument is not checked by either operation. With the value 3
  \<^verbatim>\<open>SHT3x_SetModeSingleShot\<close> sends the stop command, stores 3 in the handler and
  returns \<^verbatim>\<open>SHT3x_OK\<close>; \<^verbatim>\<open>SHT3x_SetModePeriodic\<close> with a valid speed reads
  \<^verbatim>\<open>ComandPeriodicLSB[3]\<close>, past the end of the three-element array.
\<close>

theorem SetMode_invalid_repeatability_not_rejected:
  "SHT3x_SetModeSingleShot
       (sim_handler SHT3x_MODE_PERIODIC SHT3x_REPEATABILITY_LOW send_ok receive_fail SHT3x_CheckCRC)
       3 sys0 =
     Some (SHT3x_OK,
           (sim_handler SHT3x_MODE_PERIODIC SHT3x_REPEATABILITY_LOW send_ok receive_fail
              SHT3x_CheckCRC)
              \<lparr>Mode := SHT3x_MODE_SINGLESHOT, Repeatability := 3\<rparr>,
           \<lparr>world = 1, trace = [EvSend 0x44 [0x30, 0x93] 0]\<rparr>)
   \<and> SHT3x_SetModePeriodic
       (sim_handler SHT3x_MODE_PERIODIC SHT3x_REPEATABILITY_LOW send_ok receive_fail SHT3x_CheckCRC)
       SHT3x_SPEED_05MPS 3 sys0 = None"
  by (simp add: SHT3x_SetModeSingleShot_def SHT3x_SetModePeriodic_def call_send_def
        sim_handler_def send_ok_def sys0_def ComandPeriodicLSB_def array_read_def)

section \<open>What each capability call adds to the log\<close>

lemma call_receive_cases:
  assumes "call_receive h b n s = Some (r, b', s')"
  shows "trace s' = trace s @ [EvReceive (AddressI2C h) n r (map b' [0..<n])]"
  using assms by (auto simp add: call_receive_def split: option.splits prod.splits)

lemma call_delay_cases:
  assumes "call_delay h ms s = Some (r, s')"
  shows "trace s' = trace s @ [EvDelay ms]"
  using assms by (auto simp add: call_delay_def split: option.splits prod.splits)

lemma call_crc_cases:
  assumes "call_crc h d c s = Some (r, s')"
  shows "trace s' = trace s @ [EvCRC d c r]"
  using assms by (auto simp add: call_crc_def split: option.splits prod.splits)



lemma call_delay_bound:
  "PlatformDelay h = Some delay \<Longrightarrow> \<exists>r s1. call_delay h ms s = Some (r, s1)"
  by (simp add: call_delay_def split: prod.splits)

lemma call_crc_bound:
  "PlatformCRC h = Some crc \<Longrightarrow> \<exists>r s1. call_crc h d c s = Some (r, s1)"
  by (simp add: call_crc_def split: prod.splits)

lemma decode_cases:
  assumes "SHT3x_ReadSample_decode fp h b Sample s = Some (res, Sample', s')"
  shows "\<exists>c1. (c1 \<noteq> 0 \<and> res = SHT3x_CRC_ERROR
               \<and> Sample' = Sample\<lparr>TempRaw := be16 (b 0) (b 1), HumRaw := be16 (b 3) (b 4)\<rparr>
               \<and> trace s' = trace s @ [EvCRC (be16 (b 0) (b 1)) (b 2) c1])
           \<or> (\<exists>c2. trace s' = trace s @ [EvCRC (be16 (b 0) (b 1)) (b 2) 0,
                                          EvCRC (be16 (b 3) (b 4)) (b 5) c2]
                 \<and> (if c2 \<noteq> 0
                    then res = SHT3x_CRC_ERROR
                      \<and> Sample' = Sample\<lparr>TempRaw := be16 (b 0) (b 1), HumRaw := be16 (b 3) (b 4)\<rparr>
                    else res = SHT3x_OK
                      \<and> Sample' = SHT3x_ConvSample fp
                           (Sample\<lparr>TempRaw := be16 (b 0) (b 1), HumRaw := be16 (b 3) (b 4)\<rparr>)))"
proof -
  let ?raw = "Sample\<lparr>TempRaw := be16 (b 0) (b 1), HumRaw := be16 (b 3) (b 4)\<rparr>"
  have unf: "SHT3x_ReadSample_decode fp h b Sample s =
      call_crc h (be16 (b 0) (b 1)) (b 2) s \<bind>
        (\<lambda>(c1, s1). if c1 \<noteq> 0 then Some (SHT3x_CRC_ERROR, ?raw, s1)
           else call_crc h (be16 (b 3) (b 4)) (b 5) s1 \<bind>
             (\<lambda>(c2, s2). if c2 \<noteq> 0 then Some (SHT3x_CRC_ERROR, ?raw, s2)
                else Some (SHT3x_OK, SHT3x_ConvSample fp ?raw, s2)))"
    by (simp add: SHT3x_ReadSample_decode_def Let_def cong: if_cong)
  from assms unf obtain c1 s1 where
    c1: "call_crc h (be16 (b 0) (b 1)) (b 2) s = Some (c1, s1)"
    by (cases "call_crc h (be16 (b 0) (b 1)) (b 2) s") auto
  note t1 = call_crc_cases [OF c1]
  show ?thesis
  proof (cases "c1 = 0")
    case False
    with assms unf c1 t1 show ?thesis by auto
  next
    case True
    with assms unf c1 obtain c2 s2 where
      c2: "call_crc h (be16 (b 3) (b 4)) (b 5) s1 = Some (c2, s2)"
      by (cases "call_crc h (be16 (b 3) (b 4)) (b 5) s1") auto
    note t2 = call_crc_cases [OF c2]
    from assms unf c1 c2 True t1 t2 show ?thesis by (cases "c2 = 0") auto
  qed
qed


section \<open>The polling loop\<close>

lemma receive_loop_step:
  "Counter < 20 \<Longrightarrow> call_receive h b 6 s = Some (r, b1, s1) \<Longrightarrow> r \<noteq> 0 \<Longrightarrow>
   call_delay h 1 s1 = Some (d, s2) \<Longrightarrow>
   receive_loop Counter h b s = receive_loop (Suc Counter) h b1 s2"
  by (subst receive_loop.simps) simp

lemma receive_loop_done:
  "\<not> Counter < 20 \<Longrightarrow> receive_loop Counter h b s = Some (b, s)"
  by (subst receive_loop.simps) simp

lemma receive_loop_hit:
  "Counter < 20 \<Longrightarrow> call_receive h b 6 s = Some (0, b1, s1) \<Longrightarrow>
   receive_loop Counter h b s = Some (b1, s1)"
  by (subst receive_loop.simps) simp

lemma poll_events_Cons:
  "poll_events a ((r, bytes) # rs) = EvReceive a 6 r bytes # EvDelay 1 # poll_events a rs"
  by (simp add: poll_events_def)

lemma receive_loop_all_fail:
  assumes recv: "PlatformReceive h = Some recv"
    and delay: "PlatformDelay h = Some delay"
    and fail: "\<And>b n w. fst (recv (AddressI2C h) b n w) \<noteq> 0"
    and keep: "\<And>b n w. fst (snd (recv (AddressI2C h) b n w)) 2 = b 2
                      \<and> fst (snd (recv (AddressI2C h) b n w)) 5 = b 5"
  shows "Counter + k = 20 \<Longrightarrow>
         \<exists>b' s' rs. receive_loop Counter h b s = Some (b', s') \<and> b' 2 = b 2 \<and> b' 5 = b 5
           \<and> trace s' = trace s @ poll_events (AddressI2C h) rs \<and> length rs = k
           \<and> (\<forall>(r, bytes) \<in> set rs. r \<noteq> 0)"
proof (induction k arbitrary: Counter b s)
  case 0
  then have "receive_loop Counter h b s = Some (b, s)" by (simp add: receive_loop_done)
  then show ?case by (simp add: poll_events_def)
next
  case (Suc k)
  obtain r b1 w1 where rc: "recv (AddressI2C h) b 6 (world s) = (r, b1, w1)"
    by (cases "recv (AddressI2C h) b 6 (world s)") auto
  from fail [of b 6 "world s"] rc have r: "r \<noteq> 0" by simp
  from keep [of b 6 "world s"] rc have b1: "b1 2 = b 2" "b1 5 = b 5" by simp_all
  define s1 where "s1 = \<lparr>world = w1, trace = trace s @ [EvReceive (AddressI2C h) 6 r (map b1 [0..<6])]\<rparr>"
  have cr: "call_receive h b 6 s = Some (r, b1, s1)"
    using recv rc by (simp add: call_receive_def s1_def)
  obtain d w2 where dl: "delay 1 (world s1) = (d, w2)"
    by (cases "delay 1 (world s1)") auto
  define s2 where "s2 = \<lparr>world = w2, trace = trace s1 @ [EvDelay 1]\<rparr>"
  have cd: "call_delay h 1 s1 = Some (d, s2)"
    using delay dl by (simp add: call_delay_def s2_def)
  from Suc.prems have lt: "Counter < 20" and nxt: "Suc Counter + k = 20" by simp_all
  from Suc.IH [OF nxt, of b1 s2] obtain b' s' rs where
    ih: "receive_loop (Suc Counter) h b1 s2 = Some (b', s')" "b' 2 = b1 2" "b' 5 = b1 5"
        "trace s' = trace s2 @ poll_events (AddressI2C h) rs" "length rs = k"
        "\<forall>(r, bytes) \<in> set rs. r \<noteq> 0"
    by blast
  have "receive_loop Counter h b s = Some (b', s')"
    using receive_loop_step [OF lt cr r cd] ih(1) by simp
  moreover have "trace s' = trace s @ poll_events (AddressI2C h) ((r, map b1 [0..<6]) # rs)"
    using ih(4) by (simp add: s2_def s1_def poll_events_Cons)
  moreover have "length ((r, map b1 [0..<6]) # rs) = Suc k" using ih(5) by simp
  moreover have "\<forall>(r, bytes) \<in> set ((r, map b1 [0..<6]) # rs). r \<noteq> 0" using ih(6) r by simp
  ultimately show ?case using ih(2,3) b1 by metis
qed

section \<open>Single-shot reads\<close>

lemma ReadSample_singleshot_eq:
  assumes "Mode h = SHT3x_MODE_SINGLESHOT"
    and "Repeatability h \<in> {SHT3x_REPEATABILITY_LOW, SHT3x_REPEATABILITY_MEDIUM, SHT3x_REPEATABILITY_HIGH}"
    and "call_send h (singleshot_command (Repeatability h)) s = Some (0, s1)"
    and "receive_loop 0 h (\<lambda>i. 0) s1 = Some (Buffer, s2)"
  shows "SHT3x_ReadSample fp h Sample s =
           (if Buffer 2 = 0 \<and> Buffer 5 = 0 then Some (SHT3x_FAIL, Sample, s2)
            else SHT3x_ReadSample_decode fp h Buffer Sample s2)"
  using assms
  by (auto simp add: SHT3x_ReadSample_def singleshot_command_def)

text \<open>
  C8. In single-shot mode, once the command has been sent, whatever buffer the polling
  loop leaves is rejected when its bytes 2 and 5 (the two CRC positions) are both zero:
  \<^verbatim>\<open>SHT3x_ReadSample\<close> returns \<^verbatim>\<open>SHT3x_FAIL\<close> and the sample is untouched. This
  includes a receive that succeeded at the first attempt and delivered a measurement
  (0x64D3 and 0x7D18, about 23.9 degrees Celsius and 48.9 percent) whose two checksums
  are both 0x00.
\<close>

theorem ReadSample_singleshot_zero_crc_bytes:
  assumes "Mode h = SHT3x_MODE_SINGLESHOT"
    and "Repeatability h \<in> {SHT3x_REPEATABILITY_LOW, SHT3x_REPEATABILITY_MEDIUM, SHT3x_REPEATABILITY_HIGH}"
    and "call_send h (singleshot_command (Repeatability h)) s = Some (0, s1)"
    and "receive_loop 0 h (\<lambda>i. 0) s1 = Some (Buffer, s2)"
    and "Buffer 2 = 0" and "Buffer 5 = 0"
  shows "SHT3x_ReadSample fp h Sample s = Some (SHT3x_FAIL, Sample, s2)"
  using ReadSample_singleshot_eq [OF assms(1-4)] assms(5,6) by simp

theorem ReadSample_singleshot_zero_crc_bytes_witness:
  "sensor_crc8 [0x64, 0xD3] = 0x00 \<and> sensor_crc8 [0x7D, 0x18] = 0x00
   \<and> SHT3x_ReadSample fp_ieee
     (sim_handler SHT3x_MODE_SINGLESHOT SHT3x_REPEATABILITY_HIGH send_ok
        (receive_data [0x64, 0xD3, 0x00, 0x7D, 0x18, 0x00]) SHT3x_CheckCRC)
     sample0 sys0 =
   Some (SHT3x_FAIL, sample0,
         \<lparr>world = 1,
          trace = [EvSend 0x44 [0x24, 0x00] 0,
                   EvReceive 0x44 6 0 [0x64, 0xD3, 0x00, 0x7D, 0x18, 0x00]]\<rparr>)"
proof -
  let ?h = "sim_handler SHT3x_MODE_SINGLESHOT SHT3x_REPEATABILITY_HIGH send_ok
        (receive_data [0x64, 0xD3, 0x00, 0x7D, 0x18, 0x00]) SHT3x_CheckCRC"
  let ?s1 = "\<lparr>world = 1::nat, trace = [EvSend 0x44 [0x24, 0x00] 0]\<rparr>"
  let ?s2 = "\<lparr>world = 1::nat, trace = [EvSend 0x44 [0x24, 0x00] 0,
                   EvReceive 0x44 6 0 [0x64, 0xD3, 0x00, 0x7D, 0x18, 0x00]]\<rparr>"
  let ?b = "write_bytes [0x64, 0xD3, 0x00, 0x7D, 0x18, 0x00] (\<lambda>i. 0) 6"
  have m: "Mode ?h = SHT3x_MODE_SINGLESHOT" by (simp add: sim_handler_def)
  have r: "Repeatability ?h \<in>
      {SHT3x_REPEATABILITY_LOW, SHT3x_REPEATABILITY_MEDIUM, SHT3x_REPEATABILITY_HIGH}"
    by (simp add: sim_handler_def)
  have s: "call_send ?h (singleshot_command (Repeatability ?h)) sys0 = Some (0, ?s1)"
    by (simp add: call_send_def sim_handler_def send_ok_def sys0_def singleshot_command_def)
  have l: "receive_loop 0 ?h (\<lambda>i. 0) ?s1 = Some (?b, ?s2)"
    by (simp add: receive_loop.simps [of 0] call_receive_def sim_handler_def receive_data_def
          write_bytes_def upt_rec)
  have b2: "?b 2 = 0" and b5: "?b 5 = 0" by (simp_all add: write_bytes_def)
  have crc: "sensor_crc8 [0x64, 0xD3] = 0x00 \<and> sensor_crc8 [0x7D, 0x18] = 0x00"
    by code_simp
  from ReadSample_singleshot_zero_crc_bytes [OF m r s l b2 b5, of fp_ieee sample0] crc
  show ?thesis by (simp only: simp_thms)
qed

text \<open>
  The single-shot branch never looks at the status of the last receive. What it tests
  after the loop is the array: with a send that succeeds and a receive that always
  returns a nonzero status, the call makes twenty receive attempts, each followed by a
  delay of 1 ms, and it returns \<^verbatim>\<open>SHT3x_FAIL\<close> provided that the failing receive left
  bytes 2 and 5 of the array as it found them.
\<close>

lemma ReadSample_singleshot_buffer_kept:
  assumes mode: "Mode h = SHT3x_MODE_SINGLESHOT"
    and rep: "Repeatability h \<in>
           {SHT3x_REPEATABILITY_LOW, SHT3x_REPEATABILITY_MEDIUM, SHT3x_REPEATABILITY_HIGH}"
    and send: "PlatformSend h = Some send"
    and recv: "PlatformReceive h = Some recv"
    and delay: "PlatformDelay h = Some delay"
    and sent: "fst (send (AddressI2C h) (singleshot_command (Repeatability h)) (world s)) = 0"
    and fail: "\<forall>b n w. fst (recv (AddressI2C h) b n w) \<noteq> 0"
    and keep: "\<forall>b n w. fst (snd (recv (AddressI2C h) b n w)) 2 = b 2
                      \<and> fst (snd (recv (AddressI2C h) b n w)) 5 = b 5"
  shows "\<exists>s' rs. SHT3x_ReadSample fp h Sample s = Some (SHT3x_FAIL, Sample, s')
           \<and> trace s' = trace s
                @ EvSend (AddressI2C h) (singleshot_command (Repeatability h)) 0
                # poll_events (AddressI2C h) rs
           \<and> length rs = 20 \<and> (\<forall>(r, bytes) \<in> set rs. r \<noteq> 0)"
proof -
  let ?cmd = "singleshot_command (Repeatability h)"
  obtain w1 where w1: "send (AddressI2C h) ?cmd (world s) = (0, w1)"
    using sent by (cases "send (AddressI2C h) ?cmd (world s)") auto
  define s1 where "s1 = \<lparr>world = w1, trace = trace s @ [EvSend (AddressI2C h) ?cmd 0]\<rparr>"
  have cs: "call_send h ?cmd s = Some (0, s1)"
    using call_send_Some [OF send w1] by (simp add: s1_def)
  from receive_loop_all_fail [OF recv delay, of 0 20 "\<lambda>i. 0" s1] fail keep
  obtain b' s' rs where
    l: "receive_loop 0 h (\<lambda>i. 0) s1 = Some (b', s')" "b' 2 = 0" "b' 5 = 0"
       "trace s' = trace s1 @ poll_events (AddressI2C h) rs" "length rs = 20"
       "\<forall>(r, bytes) \<in> set rs. r \<noteq> 0"
    by auto
  have "SHT3x_ReadSample fp h Sample s = Some (SHT3x_FAIL, Sample, s')"
    using ReadSample_singleshot_eq [OF mode rep cs l(1)] l(2,3) by simp
  moreover have "trace s' = trace s @ EvSend (AddressI2C h) ?cmd 0 # poll_events (AddressI2C h) rs"
    using l(4) by (simp add: s1_def)
  ultimately show ?thesis using l(5,6) by blast
qed

lemma ReadSample_singleshot_buffer_kept_example:
  "\<exists>s' rs. SHT3x_ReadSample fp_ieee
       (sim_handler SHT3x_MODE_SINGLESHOT SHT3x_REPEATABILITY_MEDIUM send_ok receive_fail
          SHT3x_CheckCRC) sample0 sys0 = Some (SHT3x_FAIL, sample0, s')
     \<and> trace s' = EvSend 0x44 [0x24, 0x0B] 0 # poll_events 0x44 rs \<and> length rs = 20"
proof -
  let ?h = "sim_handler SHT3x_MODE_SINGLESHOT SHT3x_REPEATABILITY_MEDIUM send_ok receive_fail
          SHT3x_CheckCRC"
  have m: "Mode ?h = SHT3x_MODE_SINGLESHOT" by (simp add: sim_handler_def)
  have r: "Repeatability ?h \<in>
      {SHT3x_REPEATABILITY_LOW, SHT3x_REPEATABILITY_MEDIUM, SHT3x_REPEATABILITY_HIGH}"
    by (simp add: sim_handler_def)
  have s: "PlatformSend ?h = Some send_ok" by (simp add: sim_handler_def)
  have rc: "PlatformReceive ?h = Some receive_fail" by (simp add: sim_handler_def)
  have d: "PlatformDelay ?h = Some delay_ok" by (simp add: sim_handler_def)
  have ok: "fst (send_ok (AddressI2C ?h) (singleshot_command (Repeatability ?h)) (world sys0)) = 0"
    by (simp add: send_ok_def)
  have f: "\<forall>b n w. fst (receive_fail (AddressI2C ?h) b n w) \<noteq> 0"
    by (simp add: receive_fail_def)
  have k: "\<forall>b n w. fst (snd (receive_fail (AddressI2C ?h) b n w)) 2 = b 2
                      \<and> fst (snd (receive_fail (AddressI2C ?h) b n w)) 5 = b 5"
    by (simp add: receive_fail_def)
  from ReadSample_singleshot_buffer_kept [OF m r s rc d ok f k, of fp_ieee sample0]
  show ?thesis
    by (simp add: sim_handler_def sys0_def singleshot_command_def) blast
qed

lemma replicate_20:
  "replicate 20 x = [x, x, x, x, x, x, x, x, x, x, x, x, x, x, x, x, x, x, x, x]"
  by (simp add: eval_nat_numeral)

text \<open>
  C2. A receive that always returns a nonzero status does not always make the single-shot
  read return \<^verbatim>\<open>SHT3x_FAIL\<close>. With a send that succeeds and a receive that stores 0x66,
  0x2E, 0xFF in the first three bytes of the array and then returns -1, on every call,
  \<^verbatim>\<open>SHT3x_ReadSample\<close> in single-shot mode with high repeatability sends the command,
  makes the twenty receive attempts, each followed by a delay of 1 ms, and, no receive
  having succeeded, passes the bytes to both CRC checks and returns \<^verbatim>\<open>SHT3x_OK\<close> with a
  sample converted from \<^verbatim>\<open>TempRaw = 0x662E\<close> and \<^verbatim>\<open>HumRaw = 0\<close>. The documentation of the
  function gives \<^verbatim>\<open>SHT3x_FAIL\<close> for a failed receive, and the other branch of the same
  function returns it for every nonzero status of its receive; the test on bytes 2 and 5
  that stands in for the status in this branch lets the run through.
\<close>

theorem ReadSample_singleshot_failed_receives_return_ok:
  "SHT3x_ReadSample fp_ieee
     (sim_handler SHT3x_MODE_SINGLESHOT SHT3x_REPEATABILITY_HIGH send_ok receive_fail_partial
        SHT3x_CheckCRC) sample0 sys0 =
   Some (SHT3x_OK,
         SHT3x_ConvSample fp_ieee (sample0\<lparr>TempRaw := 0x662E, HumRaw := 0x0000\<rparr>),
         \<lparr>world = 1,
          trace = EvSend 0x44 [0x24, 0x00] 0
            # poll_events 0x44 (replicate 20 (- 1, [0x66, 0x2E, 0xFF, 0x00, 0x00, 0x00]))
            @ [EvCRC 0x662E 0xFF 0, EvCRC 0x0000 0x00 0]\<rparr>)"
  unfolding replicate_20
  by (simp add: SHT3x_ReadSample_def SHT3x_ReadSample_decode_def receive_loop.simps
        call_send_def call_receive_def call_delay_def call_crc_def sim_handler_def send_ok_def
        receive_fail_partial_def delay_ok_def SHT3x_CheckCRC_def write_bytes_def sys0_def
        be16_def poll_events_def upt_rec)

section \<open>The last receive of the polling loop\<close>

lemma receive_loop_last_receive:
  "Counter + Suc k = 20 \<Longrightarrow> receive_loop Counter h b0 s = Some (b, s') \<Longrightarrow>
   \<exists>pre r tail. trace s' = trace s @ pre @ EvReceive (AddressI2C h) 6 r (map b [0..<6]) # tail
      \<and> filter is_crc pre = [] \<and> (tail = [] \<or> tail = [EvDelay 1])"
proof (induction k arbitrary: Counter b0 s)
  case 0
  then have lt: "Counter < 20" and c19: "\<not> Suc Counter < 20" by simp_all
  from 0(2) obtain r b1 s1 where cr: "call_receive h b0 6 s = Some (r, b1, s1)"
    by (subst (asm) receive_loop.simps) (auto simp add: lt split: Option.bind_splits)
  note t1 = call_receive_cases [OF cr]
  show ?case
  proof (cases "r = 0")
    case True
    with 0(2) cr lt have "b = b1" "s' = s1" by (simp_all add: receive_loop_hit)
    with t1 have "trace s' = trace s @ [] @ EvReceive (AddressI2C h) 6 r (map b [0..<6]) # []"
      by simp
    then show ?thesis by (metis filter.simps(1))
  next
    case False
    from 0(2) cr False lt obtain d s2 where cd: "call_delay h 1 s1 = Some (d, s2)"
      by (subst (asm) receive_loop.simps) (auto split: Option.bind_splits)
    note t2 = call_delay_cases [OF cd]
    from receive_loop_step [OF lt cr False cd] 0(2) c19
    have "b = b1" "s' = s2" by (simp_all add: receive_loop_done)
    with t1 t2 have "trace s' = trace s @ [] @ EvReceive (AddressI2C h) 6 r (map b [0..<6]) # [EvDelay 1]"
      by simp
    then show ?thesis by (metis filter.simps(1))
  qed
next
  case (Suc k)
  then have lt: "Counter < 20" and nxt: "Suc Counter + Suc k = 20" by simp_all
  from Suc(3) obtain r b1 s1 where cr: "call_receive h b0 6 s = Some (r, b1, s1)"
    by (subst (asm) receive_loop.simps) (auto simp add: lt split: Option.bind_splits)
  note t1 = call_receive_cases [OF cr]
  show ?case
  proof (cases "r = 0")
    case True
    with Suc(3) cr lt have "b = b1" "s' = s1" by (simp_all add: receive_loop_hit)
    with t1 have "trace s' = trace s @ [] @ EvReceive (AddressI2C h) 6 r (map b [0..<6]) # []"
      by simp
    then show ?thesis by (metis filter.simps(1))
  next
    case False
    from Suc(3) cr False lt obtain d s2 where cd: "call_delay h 1 s1 = Some (d, s2)"
      by (subst (asm) receive_loop.simps) (auto split: Option.bind_splits)
    note t2 = call_delay_cases [OF cd]
    from receive_loop_step [OF lt cr False cd] Suc(3)
    have "receive_loop (Suc Counter) h b1 s2 = Some (b, s')" by simp
    from Suc.IH [OF nxt this] obtain pre r' tail where
      ih: "trace s' = trace s2 @ pre @ EvReceive (AddressI2C h) 6 r' (map b [0..<6]) # tail"
          "filter is_crc pre = []" "tail = [] \<or> tail = [EvDelay 1]"
      by blast
    let ?pre = "EvReceive (AddressI2C h) 6 r (map b1 [0..<6]) # EvDelay 1 # pre"
    have "trace s' = trace s @ ?pre @ EvReceive (AddressI2C h) 6 r' (map b [0..<6]) # tail"
      using ih(1) t1 t2 by simp
    moreover have "filter is_crc ?pre = []" using ih(2) by simp
    ultimately show ?thesis using ih(3) by blast
  qed
qed

section \<open>Every return of a read, on the log\<close>

lemma ReadSample_periodic_cases:
  assumes mode: "Mode h \<noteq> SHT3x_MODE_SINGLESHOT"
    and ret: "SHT3x_ReadSample fp h Sample s = Some (res, Sample', s')"
  shows "\<exists>rs s1. call_send h [0xE0, 0x00] s = Some (rs, s1)
           \<and> (if rs \<noteq> 0 then res = SHT3x_FAIL \<and> Sample' = Sample \<and> s' = s1
              else \<exists>r b s2. call_receive h (\<lambda>i. 0) 6 s1 = Some (r, b, s2)
                \<and> (if sint r = - 3 then res = SHT3x_NO_DATA \<and> Sample' = Sample \<and> s' = s2
                   else if r \<noteq> 0 then res = SHT3x_FAIL \<and> Sample' = Sample \<and> s' = s2
                   else SHT3x_ReadSample_decode fp h b Sample s2 = Some (res, Sample', s')))"
proof -
  have unf: "SHT3x_ReadSample fp h Sample s =
      call_send h [0xE0, 0x00] s \<bind>
        (\<lambda>(r, s1). if r \<noteq> 0 then Some (SHT3x_FAIL, Sample, s1)
           else call_receive h (\<lambda>i. 0) 6 s1 \<bind>
             (\<lambda>(PlatformResult, Buffer, s2).
                if sint PlatformResult = - 3 then Some (SHT3x_NO_DATA, Sample, s2)
                else if PlatformResult \<noteq> 0 then Some (SHT3x_FAIL, Sample, s2)
                else SHT3x_ReadSample_decode fp h Buffer Sample s2))"
    using mode by (simp add: SHT3x_ReadSample_def)
  from ret unf obtain rs s1 where cs: "call_send h [0xE0, 0x00] s = Some (rs, s1)"
    by (cases "call_send h [0xE0, 0x00] s") auto
  show ?thesis
  proof (cases "rs = 0")
    case False
    with ret unf cs show ?thesis by auto
  next
    case True
    with ret unf cs obtain r b s2 where cr: "call_receive h (\<lambda>i. 0) 6 s1 = Some (r, b, s2)"
      by (cases "call_receive h (\<lambda>i. 0) 6 s1") auto
    from ret unf cs cr True
    have "if sint r = - 3 then res = SHT3x_NO_DATA \<and> Sample' = Sample \<and> s' = s2
          else if r \<noteq> 0 then res = SHT3x_FAIL \<and> Sample' = Sample \<and> s' = s2
          else SHT3x_ReadSample_decode fp h b Sample s2 = Some (res, Sample', s')"
      by (auto split: if_splits)
    with cs cr True show ?thesis by auto
  qed
qed

lemma ReadSample_singleshot_cases:
  assumes mode: "Mode h = SHT3x_MODE_SINGLESHOT"
    and ret: "SHT3x_ReadSample fp h Sample s = Some (res, Sample', s')"
  shows "(res = SHT3x_INVALID_PARAM \<and> Sample' = Sample \<and> s' = s) \<or>
         (\<exists>rs s1. call_send h (singleshot_command (Repeatability h)) s = Some (rs, s1)
           \<and> (if rs \<noteq> 0 then res = SHT3x_FAIL \<and> Sample' = Sample \<and> s' = s1
              else \<exists>b s2. receive_loop 0 h (\<lambda>i. 0) s1 = Some (b, s2)
                \<and> (if b 2 = 0 \<and> b 5 = 0 then res = SHT3x_FAIL \<and> Sample' = Sample \<and> s' = s2
                   else SHT3x_ReadSample_decode fp h b Sample s2 = Some (res, Sample', s'))))"
proof (cases "Repeatability h \<in>
           {SHT3x_REPEATABILITY_LOW, SHT3x_REPEATABILITY_MEDIUM, SHT3x_REPEATABILITY_HIGH}")
  case False
  with mode ret show ?thesis by (simp add: SHT3x_ReadSample_def)
next
  case rep: True
  let ?cmd = "singleshot_command (Repeatability h)"
  have unf: "SHT3x_ReadSample fp h Sample s =
      call_send h ?cmd s \<bind>
        (\<lambda>(r, s1). if r \<noteq> 0 then Some (SHT3x_FAIL, Sample, s1)
           else receive_loop 0 h (\<lambda>i. 0) s1 \<bind>
             (\<lambda>(Buffer, s2).
                if Buffer 2 = 0 \<and> Buffer 5 = 0 then Some (SHT3x_FAIL, Sample, s2)
                else SHT3x_ReadSample_decode fp h Buffer Sample s2))"
    using mode rep by (auto simp add: SHT3x_ReadSample_def singleshot_command_def)
  from ret unf obtain rs s1 where cs: "call_send h ?cmd s = Some (rs, s1)"
    by (cases "call_send h ?cmd s") auto
  show ?thesis
  proof (cases "rs = 0")
    case False
    with ret unf cs show ?thesis by auto
  next
    case True
    with ret unf cs obtain b s2 where l: "receive_loop 0 h (\<lambda>i. 0) s1 = Some (b, s2)"
      by (cases "receive_loop 0 h (\<lambda>i. 0) s1") auto
    from ret unf cs l True
    have "if b 2 = 0 \<and> b 5 = 0 then res = SHT3x_FAIL \<and> Sample' = Sample \<and> s' = s2
          else SHT3x_ReadSample_decode fp h b Sample s2 = Some (res, Sample', s')"
      by (auto split: if_splits)
    with cs l True show ?thesis by auto
  qed
qed

lemma buffer_bytes:
  "map b [0..<6] ! 0 = b 0" "map b [0..<6] ! 1 = b 1" "map b [0..<6] ! 2 = b 2"
  "map b [0..<6] ! 3 = b 3" "map b [0..<6] ! 4 = b 4" "map b [0..<6] ! 5 = b 5"
  by (simp_all add: numeral_2_eq_2)

text \<open>What a return of the decoding part adds to the log, in terms of the bytes decoded.\<close>

lemma decode_log:
  assumes "SHT3x_ReadSample_decode fp h b Sample s = Some (res, Sample', s')"
    and "bytes = map b [0..<6]"
  shows "\<exists>crcs. trace s' = trace s @ crcs \<and>
     ((\<exists>c. c \<noteq> 0 \<and> crcs = [EvCRC (TempRaw (raw_decoded bytes Sample)) (bytes ! 2) c]
            \<and> res = SHT3x_CRC_ERROR \<and> Sample' = raw_decoded bytes Sample)
      \<or> (\<exists>c. c \<noteq> 0 \<and> crcs = [EvCRC (TempRaw (raw_decoded bytes Sample)) (bytes ! 2) 0,
                                  EvCRC (HumRaw (raw_decoded bytes Sample)) (bytes ! 5) c]
            \<and> res = SHT3x_CRC_ERROR \<and> Sample' = raw_decoded bytes Sample)
      \<or> (crcs = [EvCRC (TempRaw (raw_decoded bytes Sample)) (bytes ! 2) 0,
                  EvCRC (HumRaw (raw_decoded bytes Sample)) (bytes ! 5) 0]
            \<and> res = SHT3x_OK \<and> Sample' = SHT3x_ConvSample fp (raw_decoded bytes Sample)))"
proof -
  have raw: "raw_decoded bytes Sample =
      Sample\<lparr>TempRaw := be16 (b 0) (b 1), HumRaw := be16 (b 3) (b 4)\<rparr>"
    and t: "TempRaw (raw_decoded bytes Sample) = be16 (b 0) (b 1)"
    and hm: "HumRaw (raw_decoded bytes Sample) = be16 (b 3) (b 4)"
    and b2: "bytes ! 2 = b 2" and b5: "bytes ! 5 = b 5"
    using assms(2) by (simp_all add: raw_decoded_def buffer_bytes del: upt_rec_numeral upt_Suc)
  from decode_cases [OF assms(1)] show ?thesis
    unfolding raw t hm b2 b5 by (auto split: if_splits)
qed

text \<open>Every return of \<^verbatim>\<open>SHT3x_ReadSample\<close>, read off the log.\<close>

lemma ReadSample_log:
  assumes ret: "SHT3x_ReadSample fp h Sample s = Some (res, Sample', s')"
  shows "(\<exists>mid. trace s' = trace s @ mid \<and> filter is_crc mid = []
            \<and> (res = SHT3x_FAIL \<or> res = SHT3x_NO_DATA \<or> res = SHT3x_INVALID_PARAM)
            \<and> Sample' = Sample)
       \<or> (\<exists>mid r bytes tail crcs.
            trace s' = trace s @ mid @ EvReceive (AddressI2C h) 6 r bytes # tail @ crcs
            \<and> filter is_crc mid = [] \<and> (tail = [] \<or> tail = [EvDelay 1]) \<and> length bytes = 6
            \<and> ((\<exists>c. c \<noteq> 0 \<and> crcs = [EvCRC (TempRaw (raw_decoded bytes Sample)) (bytes ! 2) c]
                   \<and> res = SHT3x_CRC_ERROR \<and> Sample' = raw_decoded bytes Sample)
              \<or> (\<exists>c. c \<noteq> 0
                   \<and> crcs = [EvCRC (TempRaw (raw_decoded bytes Sample)) (bytes ! 2) 0,
                              EvCRC (HumRaw (raw_decoded bytes Sample)) (bytes ! 5) c]
                   \<and> res = SHT3x_CRC_ERROR \<and> Sample' = raw_decoded bytes Sample)
              \<or> (crcs = [EvCRC (TempRaw (raw_decoded bytes Sample)) (bytes ! 2) 0,
                          EvCRC (HumRaw (raw_decoded bytes Sample)) (bytes ! 5) 0]
                   \<and> res = SHT3x_OK
                   \<and> Sample' = SHT3x_ConvSample fp (raw_decoded bytes Sample))))"
    (is "?quiet \<or> ?decoded")
proof (cases "Mode h = SHT3x_MODE_SINGLESHOT")
  case True
  from ReadSample_singleshot_cases [OF True ret] show ?thesis
  proof (elim disjE exE conjE)
    assume "res = SHT3x_INVALID_PARAM" "Sample' = Sample" "s' = s"
    then have "trace s' = trace s @ [] \<and> filter is_crc [] = []
       \<and> (res = SHT3x_FAIL \<or> res = SHT3x_NO_DATA \<or> res = SHT3x_INVALID_PARAM) \<and> Sample' = Sample"
      by simp
    then show ?thesis by blast
  next
    fix rs s1
    let ?cmd = "singleshot_command (Repeatability h)"
    assume cs: "call_send h ?cmd s = Some (rs, s1)"
      and rest: "if rs \<noteq> 0 then res = SHT3x_FAIL \<and> Sample' = Sample \<and> s' = s1
         else \<exists>b s2. receive_loop 0 h (\<lambda>i. 0) s1 = Some (b, s2)
                \<and> (if b 2 = 0 \<and> b 5 = 0 then res = SHT3x_FAIL \<and> Sample' = Sample \<and> s' = s2
                   else SHT3x_ReadSample_decode fp h b Sample s2 = Some (res, Sample', s'))"
    note t1 = call_send_cases [OF cs]
    show ?thesis
    proof (cases "rs = 0")
      case False
      with rest t1 have "trace s' = trace s @ [EvSend (AddressI2C h) ?cmd rs]
        \<and> filter is_crc [EvSend (AddressI2C h) ?cmd rs] = []
        \<and> (res = SHT3x_FAIL \<or> res = SHT3x_NO_DATA \<or> res = SHT3x_INVALID_PARAM) \<and> Sample' = Sample"
        by simp
      then show ?thesis by blast
    next
      case rs0: True
      with rest obtain b s2 where l: "receive_loop 0 h (\<lambda>i. 0) s1 = Some (b, s2)"
        and fin: "if b 2 = 0 \<and> b 5 = 0 then res = SHT3x_FAIL \<and> Sample' = Sample \<and> s' = s2
                   else SHT3x_ReadSample_decode fp h b Sample s2 = Some (res, Sample', s')"
        by auto
      from receive_loop_last_receive [of 0 19 h "\<lambda>i. 0" s1 b s2] l obtain pre r tail where
        t2: "trace s2 = trace s1 @ pre @ EvReceive (AddressI2C h) 6 r (map b [0..<6]) # tail"
        and pre: "filter is_crc pre = []" and tail: "tail = [] \<or> tail = [EvDelay 1]"
        by auto
      let ?mid = "EvSend (AddressI2C h) ?cmd rs # pre"
      let ?bytes = "map b [0..<6]"
      have t12: "trace s2 = trace s @ ?mid @ EvReceive (AddressI2C h) 6 r ?bytes # tail"
        using t1 t2 by simp
      have mid: "filter is_crc ?mid = []" using pre by simp
      show ?thesis
      proof (cases "b 2 = 0 \<and> b 5 = 0")
        case True
        with fin have f: "res = SHT3x_FAIL" "Sample' = Sample" "s' = s2" by simp_all
        have "filter is_crc (?mid @ EvReceive (AddressI2C h) 6 r ?bytes # tail) = []"
          using pre tail by auto
        with t12 f have ?quiet by blast
        then show ?thesis ..
      next
        case False
        with fin have d: "SHT3x_ReadSample_decode fp h b Sample s2 = Some (res, Sample', s')"
          by simp
        from decode_log [OF d refl] obtain crcs where
          t3: "trace s' = trace s2 @ crcs"
          and out: "(\<exists>c. c \<noteq> 0 \<and> crcs = [EvCRC (TempRaw (raw_decoded ?bytes Sample)) (?bytes ! 2) c]
                   \<and> res = SHT3x_CRC_ERROR \<and> Sample' = raw_decoded ?bytes Sample)
              \<or> (\<exists>c. c \<noteq> 0
                   \<and> crcs = [EvCRC (TempRaw (raw_decoded ?bytes Sample)) (?bytes ! 2) 0,
                              EvCRC (HumRaw (raw_decoded ?bytes Sample)) (?bytes ! 5) c]
                   \<and> res = SHT3x_CRC_ERROR \<and> Sample' = raw_decoded ?bytes Sample)
              \<or> (crcs = [EvCRC (TempRaw (raw_decoded ?bytes Sample)) (?bytes ! 2) 0,
                          EvCRC (HumRaw (raw_decoded ?bytes Sample)) (?bytes ! 5) 0]
                   \<and> res = SHT3x_OK
                   \<and> Sample' = SHT3x_ConvSample fp (raw_decoded ?bytes Sample))"
          by blast
        have "trace s' = trace s @ ?mid @ EvReceive (AddressI2C h) 6 r ?bytes # tail @ crcs"
          using t12 t3 by simp
        moreover have "length ?bytes = 6" by simp
        ultimately have ?decoded using mid tail out by blast
        then show ?thesis ..
      qed
    qed
  qed
next
  case False
  from ReadSample_periodic_cases [OF False ret] obtain rs s1 where
    cs: "call_send h [0xE0, 0x00] s = Some (rs, s1)"
    and rest: "if rs \<noteq> 0 then res = SHT3x_FAIL \<and> Sample' = Sample \<and> s' = s1
              else \<exists>r b s2. call_receive h (\<lambda>i. 0) 6 s1 = Some (r, b, s2)
                \<and> (if sint r = - 3 then res = SHT3x_NO_DATA \<and> Sample' = Sample \<and> s' = s2
                   else if r \<noteq> 0 then res = SHT3x_FAIL \<and> Sample' = Sample \<and> s' = s2
                   else SHT3x_ReadSample_decode fp h b Sample s2 = Some (res, Sample', s'))"
    by blast
  note t1 = call_send_cases [OF cs]
  show ?thesis
  proof (cases "rs = 0")
    case False
    with rest t1 have "trace s' = trace s @ [EvSend (AddressI2C h) [0xE0, 0x00] rs]
        \<and> filter is_crc [EvSend (AddressI2C h) [0xE0, 0x00] rs] = []
        \<and> (res = SHT3x_FAIL \<or> res = SHT3x_NO_DATA \<or> res = SHT3x_INVALID_PARAM) \<and> Sample' = Sample"
      by simp
    then show ?thesis by blast
  next
    case rs0: True
    with rest obtain r b s2 where cr: "call_receive h (\<lambda>i. 0) 6 s1 = Some (r, b, s2)"
      and fin: "if sint r = - 3 then res = SHT3x_NO_DATA \<and> Sample' = Sample \<and> s' = s2
                   else if r \<noteq> 0 then res = SHT3x_FAIL \<and> Sample' = Sample \<and> s' = s2
                   else SHT3x_ReadSample_decode fp h b Sample s2 = Some (res, Sample', s')"
      by auto
    note t2 = call_receive_cases [OF cr]
    let ?bytes = "map b [0..<6]"
    let ?mid = "[EvSend (AddressI2C h) [0xE0, 0x00] rs]"
    have t12: "trace s2 = trace s @ ?mid @ EvReceive (AddressI2C h) 6 r ?bytes # []"
      using t1 t2 by simp
    show ?thesis
    proof (cases "sint r = - 3 \<or> r \<noteq> 0")
      case True
      with fin have f: "res = SHT3x_FAIL \<or> res = SHT3x_NO_DATA \<or> res = SHT3x_INVALID_PARAM"
        "Sample' = Sample" "s' = s2" by (auto split: if_splits)
      have "filter is_crc (?mid @ EvReceive (AddressI2C h) 6 r ?bytes # []) = []" by simp
      with t12 f have ?quiet by blast
      then show ?thesis ..
    next
      case False
      with fin have d: "SHT3x_ReadSample_decode fp h b Sample s2 = Some (res, Sample', s')"
        by (auto split: if_splits)
      from decode_log [OF d refl] obtain crcs where
        t3: "trace s' = trace s2 @ crcs"
        and out: "(\<exists>c. c \<noteq> 0 \<and> crcs = [EvCRC (TempRaw (raw_decoded ?bytes Sample)) (?bytes ! 2) c]
                   \<and> res = SHT3x_CRC_ERROR \<and> Sample' = raw_decoded ?bytes Sample)
              \<or> (\<exists>c. c \<noteq> 0
                   \<and> crcs = [EvCRC (TempRaw (raw_decoded ?bytes Sample)) (?bytes ! 2) 0,
                              EvCRC (HumRaw (raw_decoded ?bytes Sample)) (?bytes ! 5) c]
                   \<and> res = SHT3x_CRC_ERROR \<and> Sample' = raw_decoded ?bytes Sample)
              \<or> (crcs = [EvCRC (TempRaw (raw_decoded ?bytes Sample)) (?bytes ! 2) 0,
                          EvCRC (HumRaw (raw_decoded ?bytes Sample)) (?bytes ! 5) 0]
                   \<and> res = SHT3x_OK
                   \<and> Sample' = SHT3x_ConvSample fp (raw_decoded ?bytes Sample))"
        by blast
      have "trace s' = trace s @ ?mid @ EvReceive (AddressI2C h) 6 r ?bytes # [] @ crcs"
        using t12 t3 by simp
      moreover have "length ?bytes = 6" by simp
      moreover have "filter is_crc ?mid = []" by simp
      ultimately have ?decoded using out by blast
      then show ?thesis ..
    qed
  qed
qed

lemma no_crc_event: "filter is_crc mid = [] \<Longrightarrow> EvCRC d k c \<notin> set mid"
  by (auto simp add: filter_empty_conv)

lemma ReadStatus_log:
  assumes ret: "SHT3x_ReadStatus h Buffer Status s = Some (res, Status', s')"
  shows "(\<exists>mid. trace s' = trace s @ mid \<and> filter is_crc mid = [] \<and> res = SHT3x_FAIL
            \<and> Status' = Status)
       \<or> (\<exists>bytes c. length bytes = 3 \<and> Status' = be16 (bytes ! 0) (bytes ! 1)
            \<and> trace s' = trace s @ [EvSend (AddressI2C h) [0xF3, 0x2D] 0,
                                     EvReceive (AddressI2C h) 3 0 bytes,
                                     EvCRC Status' (bytes ! 2) c]
            \<and> (if c \<noteq> 0 then res = SHT3x_CRC_ERROR else res = SHT3x_OK))"
    (is "?quiet \<or> ?decoded")
proof -
  have unf: "SHT3x_ReadStatus h Buffer Status s =
      call_send h [0xF3, 0x2D] s \<bind>
        (\<lambda>(r, s1). if r \<noteq> 0 then Some (SHT3x_FAIL, Status, s1)
           else call_receive h Buffer 3 s1 \<bind>
             (\<lambda>(r2, Buffer', s2). if r2 \<noteq> 0 then Some (SHT3x_FAIL, Status, s2)
                else call_crc h (be16 (Buffer' 0) (Buffer' 1)) (Buffer' 2) s2 \<bind>
                  (\<lambda>(c, s3). if c \<noteq> 0 then Some (SHT3x_CRC_ERROR, be16 (Buffer' 0) (Buffer' 1), s3)
                     else Some (SHT3x_OK, be16 (Buffer' 0) (Buffer' 1), s3))))"
    by (simp add: SHT3x_ReadStatus_def)
  from ret unf obtain rs s1 where cs: "call_send h [0xF3, 0x2D] s = Some (rs, s1)"
    by (cases "call_send h [0xF3, 0x2D] s") auto
  note t1 = call_send_cases [OF cs]
  show ?thesis
  proof (cases "rs = 0")
    case False
    with ret unf cs t1 have "trace s' = trace s @ [EvSend (AddressI2C h) [0xF3, 0x2D] rs]
        \<and> filter is_crc [EvSend (AddressI2C h) [0xF3, 0x2D] rs] = [] \<and> res = SHT3x_FAIL
        \<and> Status' = Status"
      by auto
    then show ?thesis by blast
  next
    case rs0: True
    with ret unf cs obtain r b s2 where cr: "call_receive h Buffer 3 s1 = Some (r, b, s2)"
      by (cases "call_receive h Buffer 3 s1") auto
    note t2 = call_receive_cases [OF cr]
    show ?thesis
    proof (cases "r = 0")
      case False
      with ret unf cs cr rs0 t1 t2
      have "trace s' = trace s @ [EvSend (AddressI2C h) [0xF3, 0x2D] rs,
                                  EvReceive (AddressI2C h) 3 r (map b [0..<3])]
        \<and> filter is_crc [EvSend (AddressI2C h) [0xF3, 0x2D] rs,
                          EvReceive (AddressI2C h) 3 r (map b [0..<3])] = [] \<and> res = SHT3x_FAIL
        \<and> Status' = Status"
        by auto
      then show ?thesis by blast
    next
      case r0: True
      with ret unf cs cr rs0 obtain c s3 where
        cc: "call_crc h (be16 (b 0) (b 1)) (b 2) s2 = Some (c, s3)"
        by (cases "call_crc h (be16 (b 0) (b 1)) (b 2) s2") auto
      note t3 = call_crc_cases [OF cc]
      let ?bytes = "map b [0..<3]"
      have bts: "?bytes ! 0 = b 0" "?bytes ! 1 = b 1" "?bytes ! 2 = b 2" "length ?bytes = 3"
        by (simp_all add: numeral_2_eq_2)
      from ret unf cs cr cc rs0 r0
      have st: "Status' = be16 (b 0) (b 1)" "s' = s3"
        and res: "if c \<noteq> 0 then res = SHT3x_CRC_ERROR else res = SHT3x_OK"
        by (auto split: if_splits)
      have "trace s' = trace s @ [EvSend (AddressI2C h) [0xF3, 0x2D] 0,
                                     EvReceive (AddressI2C h) 3 0 ?bytes,
                                     EvCRC Status' (?bytes ! 2) c]"
        using t1 t2 t3 st rs0 r0 unfolding bts(3) by simp
      moreover have "Status' = be16 (?bytes ! 0) (?bytes ! 1)" using st unfolding bts by simp
      ultimately have ?decoded using res bts(4) by blast
      then show ?thesis ..
    qed
  qed
qed

lemma new_events: "tr' = tr @ evs \<Longrightarrow> drop (length tr) tr' = evs"
  by simp

lemma ReadSample_log_cases:
  assumes "SHT3x_ReadSample fp h Sample s = Some (res, Sample', s')"
  obtains
    (quiet) mid where "trace s' = trace s @ mid" "filter is_crc mid = []"
      "res = SHT3x_FAIL \<or> res = SHT3x_NO_DATA \<or> res = SHT3x_INVALID_PARAM" "Sample' = Sample"
  | (temp) mid r bytes tail c where
      "trace s' = trace s @ mid @ EvReceive (AddressI2C h) 6 r bytes # tail
         @ [EvCRC (TempRaw (raw_decoded bytes Sample)) (bytes ! 2) c]"
      "filter is_crc mid = []" "tail = [] \<or> tail = [EvDelay 1]" "length bytes = 6"
      "c \<noteq> 0" "res = SHT3x_CRC_ERROR" "Sample' = raw_decoded bytes Sample"
  | (hum) mid r bytes tail c where
      "trace s' = trace s @ mid @ EvReceive (AddressI2C h) 6 r bytes # tail
         @ [EvCRC (TempRaw (raw_decoded bytes Sample)) (bytes ! 2) 0,
            EvCRC (HumRaw (raw_decoded bytes Sample)) (bytes ! 5) c]"
      "filter is_crc mid = []" "tail = [] \<or> tail = [EvDelay 1]" "length bytes = 6"
      "c \<noteq> 0" "res = SHT3x_CRC_ERROR" "Sample' = raw_decoded bytes Sample"
  | (ok) mid r bytes tail where
      "trace s' = trace s @ mid @ EvReceive (AddressI2C h) 6 r bytes # tail
         @ [EvCRC (TempRaw (raw_decoded bytes Sample)) (bytes ! 2) 0,
            EvCRC (HumRaw (raw_decoded bytes Sample)) (bytes ! 5) 0]"
      "filter is_crc mid = []" "tail = [] \<or> tail = [EvDelay 1]" "length bytes = 6"
      "res = SHT3x_OK" "Sample' = SHT3x_ConvSample fp (raw_decoded bytes Sample)"
proof -
  from ReadSample_log [OF assms] consider
    (a) "\<exists>mid. trace s' = trace s @ mid \<and> filter is_crc mid = []
            \<and> (res = SHT3x_FAIL \<or> res = SHT3x_NO_DATA \<or> res = SHT3x_INVALID_PARAM)
            \<and> Sample' = Sample"
  | (b) "\<exists>mid r bytes tail crcs.
            trace s' = trace s @ mid @ EvReceive (AddressI2C h) 6 r bytes # tail @ crcs
            \<and> filter is_crc mid = [] \<and> (tail = [] \<or> tail = [EvDelay 1]) \<and> length bytes = 6
            \<and> ((\<exists>c. c \<noteq> 0 \<and> crcs = [EvCRC (TempRaw (raw_decoded bytes Sample)) (bytes ! 2) c]
                   \<and> res = SHT3x_CRC_ERROR \<and> Sample' = raw_decoded bytes Sample)
              \<or> (\<exists>c. c \<noteq> 0
                   \<and> crcs = [EvCRC (TempRaw (raw_decoded bytes Sample)) (bytes ! 2) 0,
                              EvCRC (HumRaw (raw_decoded bytes Sample)) (bytes ! 5) c]
                   \<and> res = SHT3x_CRC_ERROR \<and> Sample' = raw_decoded bytes Sample)
              \<or> (crcs = [EvCRC (TempRaw (raw_decoded bytes Sample)) (bytes ! 2) 0,
                          EvCRC (HumRaw (raw_decoded bytes Sample)) (bytes ! 5) 0]
                   \<and> res = SHT3x_OK
                   \<and> Sample' = SHT3x_ConvSample fp (raw_decoded bytes Sample)))"
    by (rule disjE)
  then show thesis
  proof cases
    case a
    then obtain mid where "trace s' = trace s @ mid" "filter is_crc mid = []"
      "res = SHT3x_FAIL \<or> res = SHT3x_NO_DATA \<or> res = SHT3x_INVALID_PARAM" "Sample' = Sample"
      by (elim exE conjE)
    then show thesis by (rule quiet)
  next
    case b
    then obtain mid r bytes tail crcs where
      t: "trace s' = trace s @ mid @ EvReceive (AddressI2C h) 6 r bytes # tail @ crcs"
      and m: "filter is_crc mid = []" and tl: "tail = [] \<or> tail = [EvDelay 1]"
      and l: "length bytes = 6"
      and out: "(\<exists>c. c \<noteq> 0 \<and> crcs = [EvCRC (TempRaw (raw_decoded bytes Sample)) (bytes ! 2) c]
                   \<and> res = SHT3x_CRC_ERROR \<and> Sample' = raw_decoded bytes Sample)
              \<or> (\<exists>c. c \<noteq> 0
                   \<and> crcs = [EvCRC (TempRaw (raw_decoded bytes Sample)) (bytes ! 2) 0,
                              EvCRC (HumRaw (raw_decoded bytes Sample)) (bytes ! 5) c]
                   \<and> res = SHT3x_CRC_ERROR \<and> Sample' = raw_decoded bytes Sample)
              \<or> (crcs = [EvCRC (TempRaw (raw_decoded bytes Sample)) (bytes ! 2) 0,
                          EvCRC (HumRaw (raw_decoded bytes Sample)) (bytes ! 5) 0]
                   \<and> res = SHT3x_OK
                   \<and> Sample' = SHT3x_ConvSample fp (raw_decoded bytes Sample))"
      by (elim exE conjE)
    from out show thesis
    proof (elim disjE exE conjE)
      fix c assume "c \<noteq> 0" "crcs = [EvCRC (TempRaw (raw_decoded bytes Sample)) (bytes ! 2) c]"
        "res = SHT3x_CRC_ERROR" "Sample' = raw_decoded bytes Sample"
      with t m tl l show thesis by (intro temp [of mid r bytes tail c]) simp_all
    next
      fix c assume "c \<noteq> 0" "crcs = [EvCRC (TempRaw (raw_decoded bytes Sample)) (bytes ! 2) 0,
                              EvCRC (HumRaw (raw_decoded bytes Sample)) (bytes ! 5) c]"
        "res = SHT3x_CRC_ERROR" "Sample' = raw_decoded bytes Sample"
      with t m tl l show thesis by (intro hum [of mid r bytes tail c]) simp_all
    next
      assume "crcs = [EvCRC (TempRaw (raw_decoded bytes Sample)) (bytes ! 2) 0,
                          EvCRC (HumRaw (raw_decoded bytes Sample)) (bytes ! 5) 0]"
        "res = SHT3x_OK" "Sample' = SHT3x_ConvSample fp (raw_decoded bytes Sample)"
      with t m tl l show thesis by (intro ok [of mid r bytes tail]) simp_all
    qed
  qed
qed

lemma ReadSample_crc_error_iff:
  assumes ret: "SHT3x_ReadSample fp h Sample s = Some (res, Sample', s')"
  shows "res = SHT3x_CRC_ERROR \<longleftrightarrow>
         (\<exists>d k c. c \<noteq> 0 \<and> EvCRC d k c \<in> set (drop (length (trace s)) (trace s')))"
  using ret
proof (cases rule: ReadSample_log_cases)
  case (quiet mid)
  from new_events [OF quiet(1)] no_crc_event [OF quiet(2)] quiet(3) show ?thesis by auto
next
  case (temp mid r bytes tail c)
  from new_events [OF temp(1)] have
    "EvCRC (TempRaw (raw_decoded bytes Sample)) (bytes ! 2) c
       \<in> set (drop (length (trace s)) (trace s'))" by simp
  with temp(5,6) show ?thesis by blast
next
  case (hum mid r bytes tail c)
  from new_events [OF hum(1)] have
    "EvCRC (HumRaw (raw_decoded bytes Sample)) (bytes ! 5) c
       \<in> set (drop (length (trace s)) (trace s'))" by simp
  with hum(5,6) show ?thesis by blast
next
  case (ok mid r bytes tail)
  have "EvCRC d k c \<in> set (drop (length (trace s)) (trace s')) \<Longrightarrow> c = 0" for d k c
    using new_events [OF ok(1)] no_crc_event [OF ok(2), of d k c] ok(3) by auto
  with ok(5) show ?thesis by auto
qed

lemma ReadSample_crc_error_shape:
  assumes ret: "SHT3x_ReadSample fp h Sample s = Some (SHT3x_CRC_ERROR, Sample', s')"
  shows "\<exists>mid r bytes tail c.
            length bytes = 6 \<and> c \<noteq> 0 \<and> filter is_crc mid = []
            \<and> (tail = [] \<or> tail = [EvDelay 1])
            \<and> Sample' = raw_decoded bytes Sample
            \<and> TempCelsius Sample' = TempCelsius Sample
            \<and> TempFahrenheit Sample' = TempFahrenheit Sample
            \<and> HumidityPercent Sample' = HumidityPercent Sample
            \<and> (trace s' = trace s @ mid @ EvReceive (AddressI2C h) 6 r bytes # tail
                   @ [EvCRC (TempRaw Sample') (bytes ! 2) c]
               \<or> trace s' = trace s @ mid @ EvReceive (AddressI2C h) 6 r bytes # tail
                   @ [EvCRC (TempRaw Sample') (bytes ! 2) 0,
                      EvCRC (HumRaw Sample') (bytes ! 5) c])"
  using ret
proof (cases rule: ReadSample_log_cases)
  case (quiet mid)
  then show ?thesis by auto
next
  case (temp mid r bytes tail c)
  have keep: "TempCelsius Sample' = TempCelsius Sample"
      "TempFahrenheit Sample' = TempFahrenheit Sample"
      "HumidityPercent Sample' = HumidityPercent Sample"
    using temp(7) by (simp_all add: raw_decoded_def)
  from temp(1) temp(7) have "trace s' = trace s @ mid @ EvReceive (AddressI2C h) 6 r bytes # tail
                   @ [EvCRC (TempRaw Sample') (bytes ! 2) c]" by simp
  with temp(2-5,7) keep show ?thesis by blast
next
  case (hum mid r bytes tail c)
  have keep: "TempCelsius Sample' = TempCelsius Sample"
      "TempFahrenheit Sample' = TempFahrenheit Sample"
      "HumidityPercent Sample' = HumidityPercent Sample"
    using hum(7) by (simp_all add: raw_decoded_def)
  from hum(1) hum(7) have "trace s' = trace s @ mid @ EvReceive (AddressI2C h) 6 r bytes # tail
                   @ [EvCRC (TempRaw Sample') (bytes ! 2) 0,
                      EvCRC (HumRaw Sample') (bytes ! 5) c]" by simp
  with hum(2-5,7) keep show ?thesis by blast
next
  case (ok mid r bytes tail)
  then show ?thesis by simp
qed

lemma ReadStatus_crc_error_iff:
  assumes ret: "SHT3x_ReadStatus h Buffer Status s = Some (res, Status', s')"
  shows "res = SHT3x_CRC_ERROR \<longleftrightarrow>
         (\<exists>d k c. c \<noteq> 0 \<and> EvCRC d k c \<in> set (drop (length (trace s)) (trace s')))"
proof -
  from ReadStatus_log [OF ret] consider
    (quiet) mid where "trace s' = trace s @ mid" "filter is_crc mid = []" "res = SHT3x_FAIL"
  | (crc) bytes c where
      "trace s' = trace s @ [EvSend (AddressI2C h) [0xF3, 0x2D] 0,
                             EvReceive (AddressI2C h) 3 0 bytes, EvCRC Status' (bytes ! 2) c]"
      "if c \<noteq> 0 then res = SHT3x_CRC_ERROR else res = SHT3x_OK"
    by blast
  then show ?thesis
  proof cases
    case (quiet mid)
    from new_events [OF quiet(1)] no_crc_event [OF quiet(2)] quiet(3) show ?thesis by auto
  next
    case (crc bytes c)
    from new_events [OF crc(1)] crc(2) show ?thesis by (auto split: if_splits)
  qed
qed

lemma ReadStatus_crc_error_shape:
  assumes ret: "SHT3x_ReadStatus h Buffer Status s = Some (SHT3x_CRC_ERROR, Status', s')"
  shows "\<exists>bytes c.
            length bytes = 3 \<and> c \<noteq> 0 \<and> Status' = be16 (bytes ! 0) (bytes ! 1)
            \<and> trace s' = trace s @ [EvSend (AddressI2C h) [0xF3, 0x2D] 0,
                                     EvReceive (AddressI2C h) 3 0 bytes,
                                     EvCRC Status' (bytes ! 2) c]"
  using ReadStatus_log [OF ret] by (auto split: if_splits)

lemma call_crc_Some:
  "PlatformCRC h = Some crc \<Longrightarrow> crc d c (world s) = (r, w') \<Longrightarrow>
   call_crc h d c s = Some (r, \<lparr>world = w', trace = trace s @ [EvCRC d c r]\<rparr>)"
  by (simp add: call_crc_def)

lemma decode_checked:
  assumes crc: "PlatformCRC h = Some crc"
    and t: "crc (be16 (b 0) (b 1)) (b 2) (world s) = (c1, w1)"
    and u: "crc (be16 (b 3) (b 4)) (b 5) w1 = (c2, w2)"
  shows "SHT3x_ReadSample_decode fp h b Sample s =
     Some (if c1 \<noteq> 0
           then (SHT3x_CRC_ERROR,
                 Sample\<lparr>TempRaw := be16 (b 0) (b 1), HumRaw := be16 (b 3) (b 4)\<rparr>,
                 \<lparr>world = w1, trace = trace s @ [EvCRC (be16 (b 0) (b 1)) (b 2) c1]\<rparr>)
           else if c2 \<noteq> 0
           then (SHT3x_CRC_ERROR,
                 Sample\<lparr>TempRaw := be16 (b 0) (b 1), HumRaw := be16 (b 3) (b 4)\<rparr>,
                 \<lparr>world = w2, trace = trace s @ [EvCRC (be16 (b 0) (b 1)) (b 2) 0,
                                                  EvCRC (be16 (b 3) (b 4)) (b 5) c2]\<rparr>)
           else (SHT3x_OK,
                 SHT3x_ConvSample fp
                   (Sample\<lparr>TempRaw := be16 (b 0) (b 1), HumRaw := be16 (b 3) (b 4)\<rparr>),
                 \<lparr>world = w2, trace = trace s @ [EvCRC (be16 (b 0) (b 1)) (b 2) 0,
                                                  EvCRC (be16 (b 3) (b 4)) (b 5) 0]\<rparr>))"
proof -
  let ?s1 = "\<lparr>world = w1, trace = trace s @ [EvCRC (be16 (b 0) (b 1)) (b 2) c1]\<rparr>"
  have a: "call_crc h (be16 (b 0) (b 1)) (b 2) s = Some (c1, ?s1)"
    using call_crc_Some [OF crc t] .
  have b: "call_crc h (be16 (b 3) (b 4)) (b 5) ?s1 =
      Some (c2, \<lparr>world = w2, trace = trace ?s1 @ [EvCRC (be16 (b 3) (b 4)) (b 5) c2]\<rparr>)"
    using call_crc_Some [OF crc, of "be16 (b 3) (b 4)" "b 5" ?s1 c2 w2] u by simp
  show ?thesis
  proof (cases "c1 = 0")
    case True
    with a b show ?thesis by (simp add: SHT3x_ReadSample_decode_def Let_def)
  next
    case False
    with a show ?thesis by (simp add: SHT3x_ReadSample_decode_def Let_def)
  qed
qed

lemma ReadSample_periodic_eq:
  assumes "Mode h \<noteq> SHT3x_MODE_SINGLESHOT"
    and "call_send h [0xE0, 0x00] s = Some (0, s1)"
    and "call_receive h (\<lambda>i. 0) 6 s1 = Some (0, b, s2)"
  shows "SHT3x_ReadSample fp h Sample s = SHT3x_ReadSample_decode fp h b Sample s2"
  using assms by (simp add: SHT3x_ReadSample_def)

lemma ReadStatus_checked:
  assumes crc: "PlatformCRC h = Some crc"
    and snd: "call_send h [0xF3, 0x2D] s = Some (0, s1)"
    and rcv: "call_receive h Buffer 3 s1 = Some (0, b, s2)"
    and t: "crc (be16 (b 0) (b 1)) (b 2) (world s2) = (c, w)"
  shows "SHT3x_ReadStatus h Buffer Status s =
     Some (if c \<noteq> 0 then SHT3x_CRC_ERROR else SHT3x_OK, be16 (b 0) (b 1),
           \<lparr>world = w, trace = trace s2 @ [EvCRC (be16 (b 0) (b 1)) (b 2) c]\<rparr>)"
  using snd rcv call_crc_Some [OF crc t] by (simp add: SHT3x_ReadStatus_def)


text \<open>
  C4. With the CRC capability bound, take a read that has got its six bytes: in periodic
  or ART mode the fetch command was sent and the one receive returned 0; in single-shot
  mode the measurement command was sent and the polling loop left an array whose bytes 2
  and 5 are not both zero. Then \<^verbatim>\<open>SHT3x_ReadSample\<close> returns, and the capability decides
  the result. It is called first on the temperature word (bytes 0 and 1) with byte 2. A
  nonzero status of that call ends the read with \<^verbatim>\<open>SHT3x_CRC_ERROR\<close>: the humidity word
  is not checked. After a status of 0 the capability is called on the humidity word
  (bytes 3 and 4) with byte 5, and a nonzero status of that call gives
  \<^verbatim>\<open>SHT3x_CRC_ERROR\<close> as well. Only when both calls returned 0 is the result
  \<^verbatim>\<open>SHT3x_OK\<close>, with the converted sample. With either error the sample returned is
  the one passed in with \<^verbatim>\<open>TempRaw\<close> and \<^verbatim>\<open>HumRaw\<close> both decoded from the bytes.

  In the other direction, a return of \<^verbatim>\<open>SHT3x_ReadSample\<close> is \<^verbatim>\<open>SHT3x_CRC_ERROR\<close>
  exactly when the capability reported a nonzero status during the call. In that case
  the log ends with the last receive and either the one rejected check of the
  temperature word, or the accepted check of the temperature word and the rejected check
  of the humidity word; the sample has both raw fields decoded from the bytes of that
  receive, and \<^verbatim>\<open>TempCelsius\<close>, \<^verbatim>\<open>TempFahrenheit\<close> and \<^verbatim>\<open>HumidityPercent\<close> as they
  were.

  \<^verbatim>\<open>SHT3x_ReadStatus\<close>, once its command was sent and its receive returned 0, calls the
  capability once, on the word decoded from bytes 0 and 1 with byte 2, and returns
  \<^verbatim>\<open>SHT3x_CRC_ERROR\<close> for a nonzero status and \<^verbatim>\<open>SHT3x_OK\<close> for 0; either way
  \<^verbatim>\<open>*Status\<close> holds the decoded word. It returns \<^verbatim>\<open>SHT3x_CRC_ERROR\<close> exactly when
  that call reported a nonzero status.
\<close>

theorem ReadSample_ReadStatus_crc_error:
  "(PlatformCRC h = Some crc
      \<and> (Mode h \<noteq> SHT3x_MODE_SINGLESHOT
           \<and> call_send h [0xE0, 0x00] s = Some (0, s1)
           \<and> call_receive h (\<lambda>i. 0) 6 s1 = Some (0, b, s2)
          \<or> Mode h = SHT3x_MODE_SINGLESHOT
           \<and> Repeatability h \<in>
                {SHT3x_REPEATABILITY_LOW, SHT3x_REPEATABILITY_MEDIUM, SHT3x_REPEATABILITY_HIGH}
           \<and> call_send h (singleshot_command (Repeatability h)) s = Some (0, s1)
           \<and> receive_loop 0 h (\<lambda>i. 0) s1 = Some (b, s2)
           \<and> (b 2 \<noteq> 0 \<or> b 5 \<noteq> 0))
      \<and> crc (be16 (b 0) (b 1)) (b 2) (world s2) = (c1, w1)
      \<and> crc (be16 (b 3) (b 4)) (b 5) w1 = (c2, w2)
    \<longrightarrow> SHT3x_ReadSample fp h Sample s =
          Some (if c1 \<noteq> 0
                then (SHT3x_CRC_ERROR,
                      Sample\<lparr>TempRaw := be16 (b 0) (b 1), HumRaw := be16 (b 3) (b 4)\<rparr>,
                      \<lparr>world = w1, trace = trace s2 @ [EvCRC (be16 (b 0) (b 1)) (b 2) c1]\<rparr>)
                else if c2 \<noteq> 0
                then (SHT3x_CRC_ERROR,
                      Sample\<lparr>TempRaw := be16 (b 0) (b 1), HumRaw := be16 (b 3) (b 4)\<rparr>,
                      \<lparr>world = w2,
                       trace = trace s2 @ [EvCRC (be16 (b 0) (b 1)) (b 2) 0,
                                           EvCRC (be16 (b 3) (b 4)) (b 5) c2]\<rparr>)
                else (SHT3x_OK,
                      SHT3x_ConvSample fp
                        (Sample\<lparr>TempRaw := be16 (b 0) (b 1), HumRaw := be16 (b 3) (b 4)\<rparr>),
                      \<lparr>world = w2,
                       trace = trace s2 @ [EvCRC (be16 (b 0) (b 1)) (b 2) 0,
                                           EvCRC (be16 (b 3) (b 4)) (b 5) 0]\<rparr>)))
   \<and> (SHT3x_ReadSample fp h Sample s = Some (res, Sample', s') \<longrightarrow>
      (res = SHT3x_CRC_ERROR \<longleftrightarrow>
         (\<exists>d k c. c \<noteq> 0 \<and> EvCRC d k c \<in> set (drop (length (trace s)) (trace s'))))
    \<and> (res = SHT3x_CRC_ERROR \<longrightarrow>
         (\<exists>mid r bytes tail c.
            length bytes = 6 \<and> c \<noteq> 0 \<and> filter is_crc mid = []
            \<and> (tail = [] \<or> tail = [EvDelay 1])
            \<and> Sample' = raw_decoded bytes Sample
            \<and> TempCelsius Sample' = TempCelsius Sample
            \<and> TempFahrenheit Sample' = TempFahrenheit Sample
            \<and> HumidityPercent Sample' = HumidityPercent Sample
            \<and> (trace s' = trace s @ mid @ EvReceive (AddressI2C h) 6 r bytes # tail
                   @ [EvCRC (TempRaw Sample') (bytes ! 2) c]
               \<or> trace s' = trace s @ mid @ EvReceive (AddressI2C h) 6 r bytes # tail
                   @ [EvCRC (TempRaw Sample') (bytes ! 2) 0,
                      EvCRC (HumRaw Sample') (bytes ! 5) c]))))
   \<and> (PlatformCRC h = Some crc
      \<and> call_send h [0xF3, 0x2D] s = Some (0, t1)
      \<and> call_receive h Buffer 3 t1 = Some (0, sb, t2)
      \<and> crc (be16 (sb 0) (sb 1)) (sb 2) (world t2) = (c, w)
    \<longrightarrow> SHT3x_ReadStatus h Buffer Status s =
          Some (if c \<noteq> 0 then SHT3x_CRC_ERROR else SHT3x_OK, be16 (sb 0) (sb 1),
                \<lparr>world = w, trace = trace t2 @ [EvCRC (be16 (sb 0) (sb 1)) (sb 2) c]\<rparr>))
   \<and> (SHT3x_ReadStatus h Buffer Status s = Some (res, Status', s') \<longrightarrow>
      (res = SHT3x_CRC_ERROR \<longleftrightarrow>
         (\<exists>d k c. c \<noteq> 0 \<and> EvCRC d k c \<in> set (drop (length (trace s)) (trace s'))))
    \<and> (res = SHT3x_CRC_ERROR \<longrightarrow>
         (\<exists>bytes c.
            length bytes = 3 \<and> c \<noteq> 0 \<and> Status' = be16 (bytes ! 0) (bytes ! 1)
            \<and> trace s' = trace s @ [EvSend (AddressI2C h) [0xF3, 0x2D] 0,
                                     EvReceive (AddressI2C h) 3 0 bytes,
                                     EvCRC Status' (bytes ! 2) c])))"
proof (intro conjI impI)
  assume a: "PlatformCRC h = Some crc
      \<and> (Mode h \<noteq> SHT3x_MODE_SINGLESHOT
           \<and> call_send h [0xE0, 0x00] s = Some (0, s1)
           \<and> call_receive h (\<lambda>i. 0) 6 s1 = Some (0, b, s2)
          \<or> Mode h = SHT3x_MODE_SINGLESHOT
           \<and> Repeatability h \<in>
                {SHT3x_REPEATABILITY_LOW, SHT3x_REPEATABILITY_MEDIUM, SHT3x_REPEATABILITY_HIGH}
           \<and> call_send h (singleshot_command (Repeatability h)) s = Some (0, s1)
           \<and> receive_loop 0 h (\<lambda>i. 0) s1 = Some (b, s2)
           \<and> (b 2 \<noteq> 0 \<or> b 5 \<noteq> 0))
      \<and> crc (be16 (b 0) (b 1)) (b 2) (world s2) = (c1, w1)
      \<and> crc (be16 (b 3) (b 4)) (b 5) w1 = (c2, w2)"
  then have crc: "PlatformCRC h = Some crc"
    and t: "crc (be16 (b 0) (b 1)) (b 2) (world s2) = (c1, w1)"
    and u: "crc (be16 (b 3) (b 4)) (b 5) w1 = (c2, w2)"
    by simp_all
  from a have "(Mode h \<noteq> SHT3x_MODE_SINGLESHOT
           \<and> call_send h [0xE0, 0x00] s = Some (0, s1)
           \<and> call_receive h (\<lambda>i. 0) 6 s1 = Some (0, b, s2))
          \<or> (Mode h = SHT3x_MODE_SINGLESHOT
           \<and> Repeatability h \<in>
                {SHT3x_REPEATABILITY_LOW, SHT3x_REPEATABILITY_MEDIUM, SHT3x_REPEATABILITY_HIGH}
           \<and> call_send h (singleshot_command (Repeatability h)) s = Some (0, s1)
           \<and> receive_loop 0 h (\<lambda>i. 0) s1 = Some (b, s2)
           \<and> (b 2 \<noteq> 0 \<or> b 5 \<noteq> 0))"
    by (rule conjunct1 [OF conjunct2])
  then have "SHT3x_ReadSample fp h Sample s = SHT3x_ReadSample_decode fp h b Sample s2"
  proof
    assume p: "Mode h \<noteq> SHT3x_MODE_SINGLESHOT
           \<and> call_send h [0xE0, 0x00] s = Some (0, s1)
           \<and> call_receive h (\<lambda>i. 0) 6 s1 = Some (0, b, s2)"
    show ?thesis
      by (rule ReadSample_periodic_eq [OF conjunct1 [OF p] conjunct1 [OF conjunct2 [OF p]]
                conjunct2 [OF conjunct2 [OF p]]])
  next
    assume q: "Mode h = SHT3x_MODE_SINGLESHOT
           \<and> Repeatability h \<in>
                {SHT3x_REPEATABILITY_LOW, SHT3x_REPEATABILITY_MEDIUM, SHT3x_REPEATABILITY_HIGH}
           \<and> call_send h (singleshot_command (Repeatability h)) s = Some (0, s1)
           \<and> receive_loop 0 h (\<lambda>i. 0) s1 = Some (b, s2)
           \<and> (b 2 \<noteq> 0 \<or> b 5 \<noteq> 0)"
    then have m: "Mode h = SHT3x_MODE_SINGLESHOT"
      and r: "Repeatability h \<in>
                {SHT3x_REPEATABILITY_LOW, SHT3x_REPEATABILITY_MEDIUM, SHT3x_REPEATABILITY_HIGH}"
      and cs: "call_send h (singleshot_command (Repeatability h)) s = Some (0, s1)"
      and l: "receive_loop 0 h (\<lambda>i. 0) s1 = Some (b, s2)"
      and nz: "b 2 \<noteq> 0 \<or> b 5 \<noteq> 0"
      by blast+
    from ReadSample_singleshot_eq [OF m r cs l, of fp Sample] nz show ?thesis by auto
  qed
  with decode_checked [OF crc t u, of fp Sample]
  show "SHT3x_ReadSample fp h Sample s =
          Some (if c1 \<noteq> 0
                then (SHT3x_CRC_ERROR,
                      Sample\<lparr>TempRaw := be16 (b 0) (b 1), HumRaw := be16 (b 3) (b 4)\<rparr>,
                      \<lparr>world = w1, trace = trace s2 @ [EvCRC (be16 (b 0) (b 1)) (b 2) c1]\<rparr>)
                else if c2 \<noteq> 0
                then (SHT3x_CRC_ERROR,
                      Sample\<lparr>TempRaw := be16 (b 0) (b 1), HumRaw := be16 (b 3) (b 4)\<rparr>,
                      \<lparr>world = w2,
                       trace = trace s2 @ [EvCRC (be16 (b 0) (b 1)) (b 2) 0,
                                           EvCRC (be16 (b 3) (b 4)) (b 5) c2]\<rparr>)
                else (SHT3x_OK,
                      SHT3x_ConvSample fp
                        (Sample\<lparr>TempRaw := be16 (b 0) (b 1), HumRaw := be16 (b 3) (b 4)\<rparr>),
                      \<lparr>world = w2,
                       trace = trace s2 @ [EvCRC (be16 (b 0) (b 1)) (b 2) 0,
                                           EvCRC (be16 (b 3) (b 4)) (b 5) 0]\<rparr>))"
    by (simp only:)
next
  assume "SHT3x_ReadSample fp h Sample s = Some (res, Sample', s')"
  then show "res = SHT3x_CRC_ERROR \<longleftrightarrow>
         (\<exists>d k c. c \<noteq> 0 \<and> EvCRC d k c \<in> set (drop (length (trace s)) (trace s')))"
    by (rule ReadSample_crc_error_iff)
next
  assume "SHT3x_ReadSample fp h Sample s = Some (res, Sample', s')" "res = SHT3x_CRC_ERROR"
  then have "SHT3x_ReadSample fp h Sample s = Some (SHT3x_CRC_ERROR, Sample', s')" by simp
  then show "\<exists>mid r bytes tail c.
            length bytes = 6 \<and> c \<noteq> 0 \<and> filter is_crc mid = []
            \<and> (tail = [] \<or> tail = [EvDelay 1])
            \<and> Sample' = raw_decoded bytes Sample
            \<and> TempCelsius Sample' = TempCelsius Sample
            \<and> TempFahrenheit Sample' = TempFahrenheit Sample
            \<and> HumidityPercent Sample' = HumidityPercent Sample
            \<and> (trace s' = trace s @ mid @ EvReceive (AddressI2C h) 6 r bytes # tail
                   @ [EvCRC (TempRaw Sample') (bytes ! 2) c]
               \<or> trace s' = trace s @ mid @ EvReceive (AddressI2C h) 6 r bytes # tail
                   @ [EvCRC (TempRaw Sample') (bytes ! 2) 0,
                      EvCRC (HumRaw Sample') (bytes ! 5) c])"
    by (rule ReadSample_crc_error_shape)
next
  assume "PlatformCRC h = Some crc
      \<and> call_send h [0xF3, 0x2D] s = Some (0, t1)
      \<and> call_receive h Buffer 3 t1 = Some (0, sb, t2)
      \<and> crc (be16 (sb 0) (sb 1)) (sb 2) (world t2) = (c, w)"
  then have "PlatformCRC h = Some crc" "call_send h [0xF3, 0x2D] s = Some (0, t1)"
    "call_receive h Buffer 3 t1 = Some (0, sb, t2)"
    "crc (be16 (sb 0) (sb 1)) (sb 2) (world t2) = (c, w)"
    by simp_all
  then show "SHT3x_ReadStatus h Buffer Status s =
          Some (if c \<noteq> 0 then SHT3x_CRC_ERROR else SHT3x_OK, be16 (sb 0) (sb 1),
                \<lparr>world = w, trace = trace t2 @ [EvCRC (be16 (sb 0) (sb 1)) (sb 2) c]\<rparr>)"
    by (rule ReadStatus_checked)
next
  assume "SHT3x_ReadStatus h Buffer Status s = Some (res, Status', s')"
  then show "res = SHT3x_CRC_ERROR \<longleftrightarrow>
         (\<exists>d k c. c \<noteq> 0 \<and> EvCRC d k c \<in> set (drop (length (trace s)) (trace s')))"
    by (rule ReadStatus_crc_error_iff)
next
  assume "SHT3x_ReadStatus h Buffer Status s = Some (res, Status', s')" "res = SHT3x_CRC_ERROR"
  then have "SHT3x_ReadStatus h Buffer Status s = Some (SHT3x_CRC_ERROR, Status', s')" by simp
  then show "\<exists>bytes c.
            length bytes = 3 \<and> c \<noteq> 0 \<and> Status' = be16 (bytes ! 0) (bytes ! 1)
            \<and> trace s' = trace s @ [EvSend (AddressI2C h) [0xF3, 0x2D] 0,
                                     EvReceive (AddressI2C h) 3 0 bytes,
                                     EvCRC Status' (bytes ! 2) c]"
    by (rule ReadStatus_crc_error_shape)
qed


theorem ReadSample_ReadStatus_crc_error_witness:
  "sensor_crc8 [0x66, 0x2E] = 0x17 \<and> sensor_crc8 [0x7D, 0x13] = 0xEA
   \<and> SHT3x_ReadSample fp_ieee
      (sim_handler SHT3x_MODE_PERIODIC SHT3x_REPEATABILITY_HIGH send_ok
         (receive_data [0x66, 0x2E, 0x17, 0x7D, 0x13, 0xFF]) crc_sensor) sample0 sys0 =
     Some (SHT3x_CRC_ERROR, sample0\<lparr>TempRaw := 0x662E, HumRaw := 0x7D13\<rparr>,
           \<lparr>world = 1,
            trace = [EvSend 0x44 [0xE0, 0x00] 0,
                     EvReceive 0x44 6 0 [0x66, 0x2E, 0x17, 0x7D, 0x13, 0xFF],
                     EvCRC 0x662E 0x17 0, EvCRC 0x7D13 0xFF (- 1)]\<rparr>)
   \<and> SHT3x_ReadSample fp_ieee
      (sim_handler SHT3x_MODE_SINGLESHOT SHT3x_REPEATABILITY_HIGH send_ok
         (receive_data [0x66, 0x2E, 0xFF, 0x7D, 0x13, 0xEA]) crc_sensor) sample0 sys0 =
     Some (SHT3x_CRC_ERROR, sample0\<lparr>TempRaw := 0x662E, HumRaw := 0x7D13\<rparr>,
           \<lparr>world = 1,
            trace = [EvSend 0x44 [0x24, 0x00] 0,
                     EvReceive 0x44 6 0 [0x66, 0x2E, 0xFF, 0x7D, 0x13, 0xEA],
                     EvCRC 0x662E 0xFF (- 1)]\<rparr>)
   \<and> SHT3x_ReadSample fp_ieee
      (sim_handler SHT3x_MODE_PERIODIC SHT3x_REPEATABILITY_HIGH send_ok
         (receive_data [0x66, 0x2E, 0x17, 0x7D, 0x13, 0xEA]) crc_sensor) sample0 sys0 =
     Some (SHT3x_OK,
           SHT3x_ConvSample fp_ieee (sample0\<lparr>TempRaw := 0x662E, HumRaw := 0x7D13\<rparr>),
           \<lparr>world = 1,
            trace = [EvSend 0x44 [0xE0, 0x00] 0,
                     EvReceive 0x44 6 0 [0x66, 0x2E, 0x17, 0x7D, 0x13, 0xEA],
                     EvCRC 0x662E 0x17 0, EvCRC 0x7D13 0xEA 0]\<rparr>)
   \<and> SHT3x_ReadStatus
      (sim_handler SHT3x_MODE_SINGLESHOT SHT3x_REPEATABILITY_HIGH send_ok
         (receive_data [0x80, 0x10, 0xE1]) crc_reject) (\<lambda>i. 0) 0 sys0 =
     Some (SHT3x_CRC_ERROR, 0x8010,
           \<lparr>world = 1,
            trace = [EvSend 0x44 [0xF3, 0x2D] 0, EvReceive 0x44 3 0 [0x80, 0x10, 0xE1],
                     EvCRC 0x8010 0xE1 (- 1)]\<rparr>)"
proof -
  have k1: "sensor_crc8 [0x66, 0x2E] = 0x17" by code_simp
  have k2: "sensor_crc8 [0x7D, 0x13] = 0xEA" by code_simp
  have e1: "sensor_crc8 [ucast (drop_bit 8 (0x662E :: u16)), ucast (0x662E :: u16)] = 0x17"
    by code_simp
  have e2: "sensor_crc8 [ucast (drop_bit 8 (0x7D13 :: u16)), ucast (0x7D13 :: u16)] = 0xEA"
    by code_simp
  have t_ok: "crc_sensor 0x662E 0x17 w = (0, w)" for w
    by (simp only: crc_sensor_def e1) simp
  have t_bad: "crc_sensor 0x662E 0xFF w = (- 1, w)" for w
    by (simp only: crc_sensor_def e1) simp
  have h_ok: "crc_sensor 0x7D13 0xEA w = (0, w)" for w
    by (simp only: crc_sensor_def e2) simp
  have h_bad: "crc_sensor 0x7D13 0xFF w = (- 1, w)" for w
    by (simp only: crc_sensor_def e2) simp
  let ?sp = "\<lparr>world = 1::nat, trace = [EvSend 0x44 [0xE0, 0x00] 0]\<rparr>"
  let ?ss = "\<lparr>world = 1::nat, trace = [EvSend 0x44 [0x24, 0x00] 0]\<rparr>"
  let ?st = "\<lparr>world = 1::nat, trace = [EvSend 0x44 [0xF3, 0x2D] 0]\<rparr>"
  let ?d1 = "[0x66, 0x2E, 0x17, 0x7D, 0x13, 0xFF] :: u8 list"
  let ?h1 = "sim_handler SHT3x_MODE_PERIODIC SHT3x_REPEATABILITY_HIGH send_ok
               (receive_data ?d1) crc_sensor"
  let ?b1 = "write_bytes ?d1 (\<lambda>i. 0) 6"
  let ?r1 = "\<lparr>world = 1::nat, trace = [EvSend 0x44 [0xE0, 0x00] 0, EvReceive 0x44 6 0 ?d1]\<rparr>"
  have b1: "be16 (?b1 0) (?b1 1) = 0x662E" "?b1 2 = 0x17" "be16 (?b1 3) (?b1 4) = 0x7D13"
    "?b1 5 = 0xFF"
    by (simp_all add: write_bytes_def be16_def)
  have a1: "PlatformCRC ?h1 = Some crc_sensor
      \<and> (Mode ?h1 \<noteq> SHT3x_MODE_SINGLESHOT
           \<and> call_send ?h1 [0xE0, 0x00] sys0 = Some (0, ?sp)
           \<and> call_receive ?h1 (\<lambda>i. 0) 6 ?sp = Some (0, ?b1, ?r1)
          \<or> Mode ?h1 = SHT3x_MODE_SINGLESHOT
           \<and> Repeatability ?h1 \<in>
                {SHT3x_REPEATABILITY_LOW, SHT3x_REPEATABILITY_MEDIUM, SHT3x_REPEATABILITY_HIGH}
           \<and> call_send ?h1 (singleshot_command (Repeatability ?h1)) sys0 = Some (0, ?sp)
           \<and> receive_loop 0 ?h1 (\<lambda>i. 0) ?sp = Some (?b1, ?r1)
           \<and> (?b1 2 \<noteq> 0 \<or> ?b1 5 \<noteq> 0))
      \<and> crc_sensor (be16 (?b1 0) (?b1 1)) (?b1 2) (world ?r1) = (0, 1)
      \<and> crc_sensor (be16 (?b1 3) (?b1 4)) (?b1 5) 1 = (- 1, 1)"
    unfolding b1
    by (simp add: t_ok h_bad call_send_def call_receive_def sim_handler_def send_ok_def
          receive_data_def sys0_def write_bytes_def upt_rec)
  have r1: "SHT3x_ReadSample fp_ieee ?h1 sample0 sys0 =
     Some (SHT3x_CRC_ERROR, sample0\<lparr>TempRaw := 0x662E, HumRaw := 0x7D13\<rparr>,
           \<lparr>world = 1,
            trace = [EvSend 0x44 [0xE0, 0x00] 0, EvReceive 0x44 6 0 ?d1,
                     EvCRC 0x662E 0x17 0, EvCRC 0x7D13 0xFF (- 1)]\<rparr>)"
    using conjunct1 [OF ReadSample_ReadStatus_crc_error [where h = ?h1 and crc = crc_sensor and s = sys0 and ?s1.0 = ?sp
          and b = ?b1 and ?s2.0 = ?r1 and ?c1.0 = 0 and ?w1.0 = 1 and ?c2.0 = "- 1"
          and ?w2.0 = 1 and fp = fp_ieee and Sample = sample0], THEN mp, OF a1]
    unfolding b1 by simp
  let ?d2 = "[0x66, 0x2E, 0xFF, 0x7D, 0x13, 0xEA] :: u8 list"
  let ?h2 = "sim_handler SHT3x_MODE_SINGLESHOT SHT3x_REPEATABILITY_HIGH send_ok
               (receive_data ?d2) crc_sensor"
  let ?b2 = "write_bytes ?d2 (\<lambda>i. 0) 6"
  let ?r2 = "\<lparr>world = 1::nat, trace = [EvSend 0x44 [0x24, 0x00] 0, EvReceive 0x44 6 0 ?d2]\<rparr>"
  have b2: "be16 (?b2 0) (?b2 1) = 0x662E" "?b2 2 = 0xFF" "be16 (?b2 3) (?b2 4) = 0x7D13"
    "?b2 5 = 0xEA"
    by (simp_all add: write_bytes_def be16_def)
  have a2: "PlatformCRC ?h2 = Some crc_sensor
      \<and> (Mode ?h2 \<noteq> SHT3x_MODE_SINGLESHOT
           \<and> call_send ?h2 [0xE0, 0x00] sys0 = Some (0, ?ss)
           \<and> call_receive ?h2 (\<lambda>i. 0) 6 ?ss = Some (0, ?b2, ?r2)
          \<or> Mode ?h2 = SHT3x_MODE_SINGLESHOT
           \<and> Repeatability ?h2 \<in>
                {SHT3x_REPEATABILITY_LOW, SHT3x_REPEATABILITY_MEDIUM, SHT3x_REPEATABILITY_HIGH}
           \<and> call_send ?h2 (singleshot_command (Repeatability ?h2)) sys0 = Some (0, ?ss)
           \<and> receive_loop 0 ?h2 (\<lambda>i. 0) ?ss = Some (?b2, ?r2)
           \<and> (?b2 2 \<noteq> 0 \<or> ?b2 5 \<noteq> 0))
      \<and> crc_sensor (be16 (?b2 0) (?b2 1)) (?b2 2) (world ?r2) = (- 1, 1)
      \<and> crc_sensor (be16 (?b2 3) (?b2 4)) (?b2 5) 1 = (0, 1)"
    unfolding b2
    by (simp add: t_bad h_ok call_send_def call_receive_def sim_handler_def send_ok_def
          receive_data_def sys0_def write_bytes_def upt_rec singleshot_command_def
          receive_loop.simps [of 0])
  have r2: "SHT3x_ReadSample fp_ieee ?h2 sample0 sys0 =
     Some (SHT3x_CRC_ERROR, sample0\<lparr>TempRaw := 0x662E, HumRaw := 0x7D13\<rparr>,
           \<lparr>world = 1,
            trace = [EvSend 0x44 [0x24, 0x00] 0, EvReceive 0x44 6 0 ?d2,
                     EvCRC 0x662E 0xFF (- 1)]\<rparr>)"
    using conjunct1 [OF ReadSample_ReadStatus_crc_error [where h = ?h2 and crc = crc_sensor and s = sys0 and ?s1.0 = ?ss
          and b = ?b2 and ?s2.0 = ?r2 and ?c1.0 = "- 1" and ?w1.0 = 1 and ?c2.0 = 0
          and ?w2.0 = 1 and fp = fp_ieee and Sample = sample0], THEN mp, OF a2]
    unfolding b2 by simp
  let ?d3 = "[0x66, 0x2E, 0x17, 0x7D, 0x13, 0xEA] :: u8 list"
  let ?h3 = "sim_handler SHT3x_MODE_PERIODIC SHT3x_REPEATABILITY_HIGH send_ok
               (receive_data ?d3) crc_sensor"
  let ?b3 = "write_bytes ?d3 (\<lambda>i. 0) 6"
  let ?r3 = "\<lparr>world = 1::nat, trace = [EvSend 0x44 [0xE0, 0x00] 0, EvReceive 0x44 6 0 ?d3]\<rparr>"
  have b3: "be16 (?b3 0) (?b3 1) = 0x662E" "?b3 2 = 0x17" "be16 (?b3 3) (?b3 4) = 0x7D13"
    "?b3 5 = 0xEA"
    by (simp_all add: write_bytes_def be16_def)
  have a3: "PlatformCRC ?h3 = Some crc_sensor
      \<and> (Mode ?h3 \<noteq> SHT3x_MODE_SINGLESHOT
           \<and> call_send ?h3 [0xE0, 0x00] sys0 = Some (0, ?sp)
           \<and> call_receive ?h3 (\<lambda>i. 0) 6 ?sp = Some (0, ?b3, ?r3)
          \<or> Mode ?h3 = SHT3x_MODE_SINGLESHOT
           \<and> Repeatability ?h3 \<in>
                {SHT3x_REPEATABILITY_LOW, SHT3x_REPEATABILITY_MEDIUM, SHT3x_REPEATABILITY_HIGH}
           \<and> call_send ?h3 (singleshot_command (Repeatability ?h3)) sys0 = Some (0, ?sp)
           \<and> receive_loop 0 ?h3 (\<lambda>i. 0) ?sp = Some (?b3, ?r3)
           \<and> (?b3 2 \<noteq> 0 \<or> ?b3 5 \<noteq> 0))
      \<and> crc_sensor (be16 (?b3 0) (?b3 1)) (?b3 2) (world ?r3) = (0, 1)
      \<and> crc_sensor (be16 (?b3 3) (?b3 4)) (?b3 5) 1 = (0, 1)"
    unfolding b3
    by (simp add: t_ok h_ok call_send_def call_receive_def sim_handler_def send_ok_def
          receive_data_def sys0_def write_bytes_def upt_rec)
  have r3: "SHT3x_ReadSample fp_ieee ?h3 sample0 sys0 =
     Some (SHT3x_OK,
           SHT3x_ConvSample fp_ieee (sample0\<lparr>TempRaw := 0x662E, HumRaw := 0x7D13\<rparr>),
           \<lparr>world = 1,
            trace = [EvSend 0x44 [0xE0, 0x00] 0, EvReceive 0x44 6 0 ?d3,
                     EvCRC 0x662E 0x17 0, EvCRC 0x7D13 0xEA 0]\<rparr>)"
    using conjunct1 [OF ReadSample_ReadStatus_crc_error [where h = ?h3 and crc = crc_sensor and s = sys0 and ?s1.0 = ?sp
          and b = ?b3 and ?s2.0 = ?r3 and ?c1.0 = 0 and ?w1.0 = 1 and ?c2.0 = 0
          and ?w2.0 = 1 and fp = fp_ieee and Sample = sample0], THEN mp, OF a3]
    unfolding b3 by simp
  let ?d4 = "[0x80, 0x10, 0xE1] :: u8 list"
  let ?h4 = "sim_handler SHT3x_MODE_SINGLESHOT SHT3x_REPEATABILITY_HIGH send_ok
               (receive_data ?d4) crc_reject"
  let ?b4 = "write_bytes ?d4 (\<lambda>i. 0) 3"
  let ?r4 = "\<lparr>world = 1::nat, trace = [EvSend 0x44 [0xF3, 0x2D] 0, EvReceive 0x44 3 0 ?d4]\<rparr>"
  have b4: "be16 (?b4 0) (?b4 1) = 0x8010" "?b4 2 = 0xE1"
    by (simp_all add: write_bytes_def be16_def)
  have a4: "PlatformCRC ?h4 = Some crc_reject
      \<and> call_send ?h4 [0xF3, 0x2D] sys0 = Some (0, ?st)
      \<and> call_receive ?h4 (\<lambda>i. 0) 3 ?st = Some (0, ?b4, ?r4)
      \<and> crc_reject (be16 (?b4 0) (?b4 1)) (?b4 2) (world ?r4) = (- 1, 1)"
    unfolding b4
    by (simp add: crc_reject_def call_send_def call_receive_def sim_handler_def send_ok_def
          receive_data_def sys0_def write_bytes_def upt_rec)
  have r4: "SHT3x_ReadStatus ?h4 (\<lambda>i. 0) 0 sys0 =
     Some (SHT3x_CRC_ERROR, 0x8010,
           \<lparr>world = 1,
            trace = [EvSend 0x44 [0xF3, 0x2D] 0, EvReceive 0x44 3 0 ?d4,
                     EvCRC 0x8010 0xE1 (- 1)]\<rparr>)"
    using conjunct1 [OF conjunct2 [OF conjunct2 [OF ReadSample_ReadStatus_crc_error [where h = ?h4 and crc = crc_reject
          and s = sys0 and ?t1.0 = ?st and sb = ?b4 and ?t2.0 = ?r4 and c = "- 1" and w = 1
          and Buffer = "\<lambda>i. 0" and Status = 0]]], THEN mp, OF a4]
    unfolding b4 by simp
  from k1 k2 r1 r2 r3 r4 show ?thesis by (simp only: simp_thms)
qed


section \<open>Periodic and ART reads\<close>




section \<open>Rounding to nearest\<close>

lemma round_nearest_even_err: "\<bar>of_int (round_nearest_even m) - m\<bar> \<le> 1 / 2"
proof -
  have "of_int \<lfloor>m\<rfloor> \<le> m" "m < of_int \<lfloor>m\<rfloor> + 1" by linarith+
  then show ?thesis by (auto simp add: round_nearest_even_def Let_def)
qed

lemma round_nearest_even_int: "round_nearest_even (of_int k) = k"
  by (simp add: round_nearest_even_def)

lemma powr_floor_log_le:
  assumes "0 < (y::real)"
  shows "2 powr of_int \<lfloor>log 2 y\<rfloor> \<le> y"
proof -
  have "2 powr of_int \<lfloor>log 2 y\<rfloor> \<le> 2 powr log 2 y"
    by (rule powr_mono) simp_all
  also have "\<dots> = y" using assms by simp
  finally show ?thesis .
qed

lemma round_to_precision_err:
  "\<bar>round_to_precision p x - x\<bar> \<le> \<bar>x\<bar> / 2 ^ p"
proof (cases "x = 0")
  case True
  then show ?thesis by (simp add: round_to_precision_def)
next
  case False
  define e where "e = \<lfloor>log 2 \<bar>x\<bar>\<rfloor> - int p + 1"
  define s where "s = (2::real) powr of_int e"
  have s: "0 < s" by (simp add: s_def)
  have r: "round_to_precision p x = of_int (round_nearest_even (x / s)) * s"
    using False by (simp add: round_to_precision_def Let_def e_def s_def)
  have "\<bar>round_to_precision p x - x\<bar> = \<bar>of_int (round_nearest_even (x / s)) - x / s\<bar> * s"
  proof -
    have "round_to_precision p x - x = (of_int (round_nearest_even (x / s)) - x / s) * s"
      using s by (simp add: r left_diff_distrib)
    then show ?thesis using s by (simp add: abs_mult)
  qed
  also have "\<dots> \<le> 1 / 2 * s"
    using round_nearest_even_err [of "x / s"] s by (intro mult_right_mono) simp_all
  also have "\<dots> \<le> \<bar>x\<bar> / 2 ^ p"
  proof -
    have "s = 2 powr of_int \<lfloor>log 2 \<bar>x\<bar>\<rfloor> * 2 powr (1 - real p)"
      by (simp add: s_def e_def powr_add [symmetric] algebra_simps)
    also have "\<dots> \<le> \<bar>x\<bar> * 2 powr (1 - real p)"
      using powr_floor_log_le [of "\<bar>x\<bar>"] False by (intro mult_right_mono) simp_all
    also have "(2::real) powr (1 - real p) = 2 / 2 ^ p"
      by (simp add: powr_diff powr_realpow)
    finally show ?thesis by simp
  qed
  finally show ?thesis .
qed

lemma floor_log_int_less:
  assumes "n \<noteq> 0" and "\<bar>n\<bar> < 2 ^ p"
  shows "\<lfloor>log 2 \<bar>real_of_int n\<bar>\<rfloor> < int p"
proof -
  have pos: "0 < \<bar>real_of_int n\<bar>" using assms(1) by simp
  have "\<bar>real_of_int n\<bar> < 2 ^ p"
  proof -
    have "real_of_int \<bar>n\<bar> < real_of_int (2 ^ p)" using assms(2) by (simp only: of_int_less_iff)
    then show ?thesis by simp
  qed
  then have "\<bar>real_of_int n\<bar> < 2 powr real p" by (simp add: powr_realpow)
  then have "log 2 \<bar>real_of_int n\<bar> < real p"
    using pos by (simp add: log_less_iff)
  then show ?thesis by (simp add: floor_less_iff)
qed

lemma round_to_precision_int:
  assumes "\<bar>n\<bar> < 2 ^ p"
  shows "round_to_precision p (of_int n) = of_int n"
proof (cases "n = 0")
  case True
  then show ?thesis by (simp add: round_to_precision_def)
next
  case False
  define e where "e = \<lfloor>log 2 \<bar>real_of_int n\<bar>\<rfloor> - int p + 1"
  have e: "e \<le> 0" using floor_log_int_less [OF False assms] by (simp add: e_def)
  define k where "k = nat (- e)"
  have s: "(2::real) powr of_int e = 1 / 2 ^ k"
    using e by (simp add: powr_real_of_int k_def field_simps)
  have "real_of_int n / (2 powr of_int e) = of_int (n * 2 ^ k)"
    by (simp add: s)
  then have "round_nearest_even (real_of_int n / 2 powr of_int e) = n * 2 ^ k"
    by (simp only: round_nearest_even_int)
  then have "round_to_precision p (of_int n) = of_int (n * 2 ^ k) * (1 / 2 ^ k)"
    using False by (simp add: round_to_precision_def Let_def e_def [symmetric] s)
  then show ?thesis by simp
qed

lemma fp_ieee_exact_on_integers: "fp_exact_on_integers fp_ieee"
proof -
  have "round_to_precision 24 (of_int n) = of_int n \<and> round_to_precision 53 (of_int n) = of_int n"
    if "\<bar>n\<bar> < 2 ^ 24" for n :: int
  proof -
    from that have "\<bar>n\<bar> < 2 ^ 53" by simp
    with that show ?thesis by (simp only: round_to_precision_int)
  qed
  then show ?thesis by (simp add: fp_exact_on_integers_def fp_ieee_def)
qed

lemma fp_ieee_accurate: "fp_accurate fp_ieee"
proof -
  have "\<bar>round_to_precision p x - x\<bar> \<le> (\<bar>x\<bar> + 1) / 2 ^ p" for p x
  proof -
    have "\<bar>round_to_precision p x - x\<bar> \<le> \<bar>x\<bar> / 2 ^ p" by (rule round_to_precision_err)
    also have "\<dots> \<le> (\<bar>x\<bar> + 1) / 2 ^ p" by (simp add: divide_right_mono)
    finally show ?thesis .
  qed
  from this [of 24] this [of 53] show ?thesis
    unfolding fp_accurate_def fp_ieee_def by (simp only: fp_model.simps) blast
qed

section \<open>Conversion to physical units\<close>

lemma unat_u16_le: "unat (w :: u16) \<le> 65535"
proof -
  have "unat w < 2 ^ LENGTH(16)" by (rule unsigned_less)
  then show ?thesis by simp
qed

lemma raw_ratio_bounds:
  "0 \<le> real (unat (w :: u16)) / 65535" "real (unat (w :: u16)) / 65535 \<le> 1"
proof -
  have "real (unat w) \<le> real 65535"
    using unat_u16_le [of w] by (simp only: of_nat_le_iff)
  then have le: "real (unat w) \<le> 65535" by (simp del: of_nat_unat)
  have ge: "0 \<le> real (unat w)" by (rule of_nat_0_le_iff)
  from ge show "0 \<le> real (unat w) / 65535" by (simp del: of_nat_unat)
  from le show "real (unat w) / 65535 \<le> 1" by (simp del: of_nat_unat)
qed

lemma to_float_err:
  "fp_accurate fp \<Longrightarrow> \<bar>x\<bar> \<le> B \<Longrightarrow> B \<le> 1024 \<Longrightarrow> \<bar>to_float fp x - x\<bar> \<le> (B + 1) / 2 ^ 24"
proof -
  assume a: "fp_accurate fp" "\<bar>x\<bar> \<le> B" "B \<le> 1024"
  then have "\<bar>to_float fp x - x\<bar> \<le> (\<bar>x\<bar> + 1) / 2 ^ 24" by (simp add: fp_accurate_def)
  also have "\<dots> \<le> (B + 1) / 2 ^ 24" using a(2) by (simp add: divide_right_mono)
  finally show ?thesis .
qed

lemma to_double_err:
  "fp_accurate fp \<Longrightarrow> \<bar>x\<bar> \<le> B \<Longrightarrow> B \<le> 1024 \<Longrightarrow> \<bar>to_double fp x - x\<bar> \<le> (B + 1) / 2 ^ 53"
proof -
  assume a: "fp_accurate fp" "\<bar>x\<bar> \<le> B" "B \<le> 1024"
  then have "\<bar>to_double fp x - x\<bar> \<le> (\<bar>x\<bar> + 1) / 2 ^ 53" by (simp add: fp_accurate_def)
  also have "\<dots> \<le> (B + 1) / 2 ^ 53" using a(2) by (simp add: divide_right_mono)
  finally show ?thesis .
qed

text \<open>The temperature chain: \<open>k\<close> is 175 or 315, \<open>c\<close> is 45 or 49.\<close>

lemma temp_chain_err:
  assumes acc: "fp_accurate fp" and q: "0 \<le> q" "q \<le> 1"
    and k: "0 \<le> k" "k \<le> 315" and c: "0 \<le> c" "c \<le> 49"
  shows "\<bar>to_float fp (to_float fp (to_float fp (to_double fp q) * k) - c) - (q * k - c)\<bar>
           \<le> 1 / 10000"
proof -
  define d where "d = to_double fp q"
  define t where "t = to_float fp d"
  define p where "p = to_float fp (t * k)"
  define r where "r = to_float fp (p - c)"
  have q1: "\<bar>q\<bar> \<le> 1" using q by linarith
  have e1: "\<bar>d - q\<bar> \<le> 2 / 9007199254740992"
    using to_double_err [OF acc q1] by (simp add: d_def)
  have d: "\<bar>d\<bar> \<le> 1001 / 1000" using e1 q by linarith
  have e2: "\<bar>t - d\<bar> \<le> 2001 / 16777216000"
    using to_float_err [OF acc d] by (simp add: t_def)
  have tq: "\<bar>t - q\<bar> \<le> 2002 / 16777216000" using e1 e2 by linarith
  have t: "\<bar>t\<bar> \<le> 1001 / 1000" using tq q by linarith
  have tk: "\<bar>t * k\<bar> \<le> 316"
  proof -
    have "\<bar>t * k\<bar> = \<bar>t\<bar> * k" using k by (simp add: abs_mult)
    also have "\<dots> \<le> 1001 / 1000 * 315" using t k by (intro mult_mono) simp_all
    finally show ?thesis by simp
  qed
  have e3: "\<bar>p - t * k\<bar> \<le> 317 / 16777216"
    using to_float_err [OF acc tk] by (simp add: p_def)
  have tkq: "\<bar>t * k - q * k\<bar> \<le> 630630 / 16777216000"
  proof -
    have "t * k - q * k = (t - q) * k" by (simp add: left_diff_distrib)
    then have "\<bar>t * k - q * k\<bar> = \<bar>t - q\<bar> * k" using k by (simp add: abs_mult)
    also have "\<dots> \<le> 2002 / 16777216000 * 315" using tq k by (intro mult_mono) simp_all
    finally show ?thesis by simp
  qed
  have pc: "\<bar>p - c\<bar> \<le> 366" using e3 tk c by linarith
  have e4: "\<bar>r - (p - c)\<bar> \<le> 367 / 16777216"
    using to_float_err [OF acc pc] by (simp add: r_def)
  have "\<bar>r - (q * k - c)\<bar> \<le> 1 / 10000"
    using e3 e4 tkq by linarith
  then show ?thesis by (simp add: r_def p_def t_def d_def)
qed

lemma hum_chain_err:
  assumes acc: "fp_accurate fp" and q: "0 \<le> q" "q \<le> 1"
  shows "\<bar>to_float fp (to_double fp (to_double fp q * 100)) - q * 100\<bar> \<le> 1 / 10000"
proof -
  define d where "d = to_double fp q"
  define m where "m = to_double fp (d * 100)"
  define r where "r = to_float fp m"
  have q1: "\<bar>q\<bar> \<le> 1" using q by linarith
  have e1: "\<bar>d - q\<bar> \<le> 2 / 9007199254740992"
    using to_double_err [OF acc q1] by (simp add: d_def)
  have d: "\<bar>d * 100\<bar> \<le> 101" using e1 q by linarith
  have e2: "\<bar>m - d * 100\<bar> \<le> 102 / 9007199254740992"
    using to_double_err [OF acc d] by (simp add: m_def)
  have m: "\<bar>m\<bar> \<le> 102" using e2 d by linarith
  have e3: "\<bar>r - m\<bar> \<le> 103 / 16777216"
    using to_float_err [OF acc m] by (simp add: r_def)
  have "\<bar>r - q * 100\<bar> \<le> 1 / 10000"
    using e1 e2 e3 by linarith
  then show ?thesis by (simp add: r_def m_def d_def)
qed

lemma ConvSample_fields:
  "TempRaw (SHT3x_ConvSample fp S) = TempRaw S"
  "HumRaw (SHT3x_ConvSample fp S) = HumRaw S"
  "HumidityPercent (SHT3x_ConvSample fp S) =
     to_float fp (to_double fp (to_double fp (real (unat (HumRaw S)) / 65535) * 100))"
  "TempCelsius (SHT3x_ConvSample fp S) =
     to_float fp (to_float fp (to_float fp (to_double fp (real (unat (TempRaw S)) / 65535)) * 175) - 45)"
  "TempFahrenheit (SHT3x_ConvSample fp S) =
     to_float fp (to_float fp (to_float fp (to_double fp (real (unat (TempRaw S)) / 65535)) * 315) - 49)"
  by (simp_all add: SHT3x_ConvSample_def Let_def)

lemma fp_exact_values:
  assumes "fp_exact_on_integers fp"
  shows "to_double fp 0 = 0" "to_double fp 1 = 1" "to_double fp 100 = 100"
    "to_float fp 0 = 0" "to_float fp 1 = 1" "to_float fp 100 = 100"
    "to_float fp 175 = 175" "to_float fp 315 = 315"
    "to_float fp 130 = 130" "to_float fp 266 = 266"
    "to_float fp (- 45) = - 45" "to_float fp (- 49) = - 49"
proof -
  have f: "to_float fp (of_int n) = of_int n" and d: "to_double fp (of_int n) = of_int n"
    if "\<bar>n\<bar> < 2 ^ 24" for n
    using assms that by (simp_all add: fp_exact_on_integers_def)
  show "to_double fp 0 = 0" using d [of 0] by simp
  show "to_double fp 1 = 1" using d [of 1] by simp
  show "to_double fp 100 = 100" using d [of 100] by simp
  show "to_float fp 0 = 0" using f [of 0] by simp
  show "to_float fp 1 = 1" using f [of 1] by simp
  show "to_float fp 100 = 100" using f [of 100] by simp
  show "to_float fp 175 = 175" using f [of 175] by simp
  show "to_float fp 315 = 315" using f [of 315] by simp
  show "to_float fp 130 = 130" using f [of 130] by simp
  show "to_float fp 266 = 266" using f [of 266] by simp
  show "to_float fp (- 45) = - 45" using f [of "- 45"] by simp
  show "to_float fp (- 49) = - 49" using f [of "- 49"] by simp
qed

text \<open>
  C5. \<^verbatim>\<open>SHT3x_ConvSample\<close> leaves the two raw counts alone, and the three fields it
  computes depend on nothing but the raw counts. With floating-point arithmetic that
  rounds to nearest, each computed field is within \<open>10\<^sup>-\<^sup>4\<close> of the exact value of its
  formula, \<open>T / 65535 \<sqdot> 175 - 45\<close>, \<open>T / 65535 \<sqdot> 315 - 49\<close> and \<open>H / 65535 \<sqdot> 100\<close>.
  At the ends of the range nothing is rounded: raw count 0 gives exactly -45 degrees
  Celsius, -49 degrees Fahrenheit and 0 percent, and raw count 65535 gives exactly 130,
  266 and 100.
\<close>

theorem ConvSample_transfer_functions:
  assumes ex: "fp_exact_on_integers fp" and acc: "fp_accurate fp"
  shows "TempRaw (SHT3x_ConvSample fp S) = TempRaw S
     \<and> HumRaw (SHT3x_ConvSample fp S) = HumRaw S
     \<and> (TempRaw S2 = TempRaw S \<and> HumRaw S2 = HumRaw S \<longrightarrow>
          TempCelsius (SHT3x_ConvSample fp S2) = TempCelsius (SHT3x_ConvSample fp S)
          \<and> TempFahrenheit (SHT3x_ConvSample fp S2) = TempFahrenheit (SHT3x_ConvSample fp S)
          \<and> HumidityPercent (SHT3x_ConvSample fp S2) = HumidityPercent (SHT3x_ConvSample fp S))
     \<and> \<bar>TempCelsius (SHT3x_ConvSample fp S) - (real (unat (TempRaw S)) / 65535 * 175 - 45)\<bar>
          \<le> 1 / 10000
     \<and> \<bar>TempFahrenheit (SHT3x_ConvSample fp S) - (real (unat (TempRaw S)) / 65535 * 315 - 49)\<bar>
          \<le> 1 / 10000
     \<and> \<bar>HumidityPercent (SHT3x_ConvSample fp S) - real (unat (HumRaw S)) / 65535 * 100\<bar>
          \<le> 1 / 10000
     \<and> (TempRaw S = 0 \<longrightarrow>
          TempCelsius (SHT3x_ConvSample fp S) = - 45
          \<and> TempFahrenheit (SHT3x_ConvSample fp S) = - 49)
     \<and> (TempRaw S = 65535 \<longrightarrow>
          TempCelsius (SHT3x_ConvSample fp S) = 130
          \<and> TempFahrenheit (SHT3x_ConvSample fp S) = 266)
     \<and> (HumRaw S = 0 \<longrightarrow> HumidityPercent (SHT3x_ConvSample fp S) = 0)
     \<and> (HumRaw S = 65535 \<longrightarrow> HumidityPercent (SHT3x_ConvSample fp S) = 100)"
proof -
  note v = fp_exact_values [OF ex]
  have pure: "TempRaw S2 = TempRaw S \<and> HumRaw S2 = HumRaw S \<longrightarrow>
          TempCelsius (SHT3x_ConvSample fp S2) = TempCelsius (SHT3x_ConvSample fp S)
          \<and> TempFahrenheit (SHT3x_ConvSample fp S2) = TempFahrenheit (SHT3x_ConvSample fp S)
          \<and> HumidityPercent (SHT3x_ConvSample fp S2) = HumidityPercent (SHT3x_ConvSample fp S)"
    by (simp add: ConvSample_fields)
  have c: "\<bar>TempCelsius (SHT3x_ConvSample fp S) - (real (unat (TempRaw S)) / 65535 * 175 - 45)\<bar>
          \<le> 1 / 10000"
    unfolding ConvSample_fields
    by (rule temp_chain_err [OF acc raw_ratio_bounds]) simp_all
  have f: "\<bar>TempFahrenheit (SHT3x_ConvSample fp S) - (real (unat (TempRaw S)) / 65535 * 315 - 49)\<bar>
          \<le> 1 / 10000"
    unfolding ConvSample_fields
    by (rule temp_chain_err [OF acc raw_ratio_bounds]) simp_all
  have hm: "\<bar>HumidityPercent (SHT3x_ConvSample fp S) - real (unat (HumRaw S)) / 65535 * 100\<bar>
          \<le> 1 / 10000"
    unfolding ConvSample_fields
    by (rule hum_chain_err [OF acc raw_ratio_bounds])
  have t0: "TempRaw S = 0 \<longrightarrow>
          TempCelsius (SHT3x_ConvSample fp S) = - 45
          \<and> TempFahrenheit (SHT3x_ConvSample fp S) = - 49"
    by (simp add: ConvSample_fields v)
  have t1: "TempRaw S = 65535 \<longrightarrow>
          TempCelsius (SHT3x_ConvSample fp S) = 130
          \<and> TempFahrenheit (SHT3x_ConvSample fp S) = 266"
    by (simp add: ConvSample_fields v)
  have h0: "HumRaw S = 0 \<longrightarrow> HumidityPercent (SHT3x_ConvSample fp S) = 0"
    by (simp add: ConvSample_fields v)
  have h1: "HumRaw S = 65535 \<longrightarrow> HumidityPercent (SHT3x_ConvSample fp S) = 100"
    by (simp add: ConvSample_fields v)
  from ConvSample_fields(1,2) [of fp S] pure c f hm t0 t1 h0 h1 show ?thesis
    by blast
qed

theorem ConvSample_transfer_functions_witness:
  "fp_exact_on_integers fp_ieee \<and> fp_accurate fp_ieee
   \<and> TempCelsius (SHT3x_ConvSample fp_ieee (sample0\<lparr>TempRaw := 65535, HumRaw := 65535\<rparr>)) = 130
   \<and> TempFahrenheit (SHT3x_ConvSample fp_ieee (sample0\<lparr>TempRaw := 65535, HumRaw := 65535\<rparr>))
       = 266
   \<and> HumidityPercent (SHT3x_ConvSample fp_ieee (sample0\<lparr>TempRaw := 65535, HumRaw := 65535\<rparr>))
       = 100
   \<and> TempCelsius (SHT3x_ConvSample fp_ieee sample0) = - 45
   \<and> TempFahrenheit (SHT3x_ConvSample fp_ieee sample0) = - 49
   \<and> HumidityPercent (SHT3x_ConvSample fp_ieee sample0) = 0"
proof -
  let ?hi = "sample0\<lparr>TempRaw := 65535, HumRaw := 65535\<rparr>"
  note ex = fp_ieee_exact_on_integers
  note acc = fp_ieee_accurate
  have hi: "TempRaw ?hi = 65535" "HumRaw ?hi = 65535" by simp_all
  have lo: "TempRaw sample0 = 0" "HumRaw sample0 = 0" by (simp_all add: sample0_def)
  from ConvSample_transfer_functions [OF ex acc, of ?hi ?hi] hi
  have "TempCelsius (SHT3x_ConvSample fp_ieee ?hi) = 130
      \<and> TempFahrenheit (SHT3x_ConvSample fp_ieee ?hi) = 266
      \<and> HumidityPercent (SHT3x_ConvSample fp_ieee ?hi) = 100"
    by blast
  moreover from ConvSample_transfer_functions [OF ex acc, of sample0 sample0] lo
  have "TempCelsius (SHT3x_ConvSample fp_ieee sample0) = - 45
      \<and> TempFahrenheit (SHT3x_ConvSample fp_ieee sample0) = - 49
      \<and> HumidityPercent (SHT3x_ConvSample fp_ieee sample0) = 0"
    by blast
  ultimately show ?thesis using ex acc by blast
qed

section \<open>Initialisation\<close>

text \<open>
  Whenever \<^verbatim>\<open>SHT3x_Init\<close> returns \<^verbatim>\<open>SHT3x_OK\<close>, the log ends with the stop command,
  the soft reset 0x30 0xA2 with status 0, and a delay of 2 ms; the handler is in
  single-shot mode with low repeatability if the stop command was accepted.
\<close>

lemma Init_Ok_log:
  assumes ret: "SHT3x_Init h Address s = Some (SHT3x_OK, h', s')"
  shows "\<exists>pre r. trace s' = pre @ [EvSend (AddressI2C h') [0x30, 0x93] r,
                                   EvSend (AddressI2C h') [0x30, 0xA2] 0, EvDelay 2]
           \<and> (r = 0 \<longrightarrow> Mode h' = SHT3x_MODE_SINGLESHOT
                          \<and> Repeatability h' = SHT3x_REPEATABILITY_LOW)"
proof -
  define h1 where "h1 = snd (SHT3x_SetAddressI2C h Address)"
  define h2 where "h2 = (if PlatformCRC h1 = None then h1\<lparr>PlatformCRC := Some SHT3x_CheckCRC\<rparr> else h1)"
  define is1 where "is1 = (case PlatformInit h2 of
                         None \<Rightarrow> (0, s)
                       | Some f \<Rightarrow>
                           (case f (world s) of
                              (r, w') \<Rightarrow> (r, \<lparr>world = w', trace = trace s @ [EvInit r]\<rparr>)))"
  obtain i s1 where is1: "is1 = (i, s1)" by (cases is1)
  have bound: "\<not> (PlatformSend h1 = None \<or> PlatformReceive h1 = None \<or> PlatformDelay h1 = None)"
  proof
    assume "PlatformSend h1 = None \<or> PlatformReceive h1 = None \<or> PlatformDelay h1 = None"
    then have "SHT3x_Init h Address s = Some (SHT3x_INVALID_PARAM, h1, s)"
      by (simp add: SHT3x_Init_def Let_def h1_def)
    with ret show False by simp
  qed
  have unf: "SHT3x_Init h Address s =
      (if i \<noteq> 0 then Some (SHT3x_FAIL, h2, s1)
        else SHT3x_SetModeSingleShot h2 SHT3x_REPEATABILITY_LOW s1 \<bind>
          (\<lambda>(m, h3, s2). call_send h3 [0x30, 0xA2] s2 \<bind>
             (\<lambda>(r, s3). if r \<noteq> 0 then Some (SHT3x_FAIL, h3, s3)
                else call_delay h3 2 s3 \<bind> (\<lambda>(d, s4). Some (SHT3x_OK, h3, s4)))))"
    using bound is1
    by (auto simp add: SHT3x_Init_def Let_def h1_def [symmetric] h2_def [symmetric]
          is1_def [symmetric])
  from ret unf have i0: "i = 0" by (auto split: if_splits)
  from ret unf i0 obtain m h3 s2 where
    sm: "SHT3x_SetModeSingleShot h2 SHT3x_REPEATABILITY_LOW s1 = Some (m, h3, s2)"
    by (cases "SHT3x_SetModeSingleShot h2 SHT3x_REPEATABILITY_LOW s1") auto
  from ret unf i0 sm obtain r s3 where cs: "call_send h3 [0x30, 0xA2] s2 = Some (r, s3)"
    by (cases "call_send h3 [0x30, 0xA2] s2") auto
  from ret unf i0 sm cs have r0: "r = 0" by (auto split: if_splits)
  from ret unf i0 sm cs r0 obtain d s4 where cd: "call_delay h3 2 s3 = Some (d, s4)"
    by (cases "call_delay h3 2 s3") auto
  from ret unf i0 sm cs r0 cd have eq: "h' = h3" "s' = s4" by simp_all
  from SetModeSingleShot_cases [OF sm] obtain r1 where
    t1: "trace s2 = trace s1 @ [EvSend (AddressI2C h2) [0x30, 0x93] r1]"
    and m: "if r1 \<noteq> 0 then m = SHT3x_FAIL \<and> h3 = h2
            else m = SHT3x_OK
              \<and> h3 = h2\<lparr>Mode := SHT3x_MODE_SINGLESHOT, Repeatability := SHT3x_REPEATABILITY_LOW\<rparr>"
    by auto
  from m have a: "AddressI2C h3 = AddressI2C h2" by (auto split: if_splits)
  from m have md: "r1 = 0 \<longrightarrow> Mode h3 = SHT3x_MODE_SINGLESHOT
                          \<and> Repeatability h3 = SHT3x_REPEATABILITY_LOW"
    by (auto split: if_splits)
  note t2 = call_send_cases [OF cs]
  note t3 = call_delay_cases [OF cd]
  have "trace s' = trace s1 @ [EvSend (AddressI2C h') [0x30, 0x93] r1,
                                   EvSend (AddressI2C h') [0x30, 0xA2] 0, EvDelay 2]"
    using t1 t2 t3 eq a r0 by simp
  with md eq show ?thesis by blast
qed

text \<open>
  C9. \<^verbatim>\<open>SHT3x_Init\<close> drops the result of \<^verbatim>\<open>SHT3x_SetModeSingleShot\<close>. On a bus that
  rejects the first transfer (the stop command) and accepts the second (the soft reset),
  a handler that was in periodic mode with high repeatability comes back unchanged, and
  \<^verbatim>\<open>SHT3x_Init\<close> returns \<^verbatim>\<open>SHT3x_OK\<close>.
\<close>

theorem Init_Ok_mode_not_forced:
  "SHT3x_Init
       (sim_handler SHT3x_MODE_PERIODIC SHT3x_REPEATABILITY_HIGH send_fail_first receive_fail
          SHT3x_CheckCRC) 0 sys0 =
     Some (SHT3x_OK,
           sim_handler SHT3x_MODE_PERIODIC SHT3x_REPEATABILITY_HIGH send_fail_first receive_fail
             SHT3x_CheckCRC,
           \<lparr>world = 2,
            trace = [EvSend 0x44 [0x30, 0x93] (- 1), EvSend 0x44 [0x30, 0xA2] 0, EvDelay 2]\<rparr>)"
  by (simp add: SHT3x_Init_def SHT3x_SetAddressI2C_def SHT3x_SetModeSingleShot_def call_send_def
        call_delay_def sim_handler_def send_fail_first_def delay_ok_def sys0_def)

end
